theory Spec2Isabelle
  imports Main
begin

section \<open>Values, errors and key names\<close>

text \<open>
  A Go value of type \<^verbatim>\<open>interface{}\<close> as a configuration document or a server response
  holds it: \<^verbatim>\<open>nil\<close>, a string, a boolean, an integer, a slice or a string-keyed map.
\<close>

datatype ival =
    INil
  | IStr string
  | IBool bool
  | IInt int
  | ISlice "ival list"
  | IMap "(string \<times> ival) list"

text \<open>
  Go error values of \<^verbatim>\<open>internal/vault/operator_client.go\<close>. A message is kept as its
  format string and its arguments.
  \<^item> \<open>Errorf fmt args\<close> is \<^verbatim>\<open>errors.New\<close> / \<^verbatim>\<open>errors.Errorf\<close>;
  \<^item> \<open>Wrap err fmt args\<close> is \<^verbatim>\<open>errors.Wrap\<close> / \<^verbatim>\<open>errors.Wrapf\<close> around \<open>err\<close>;
  \<^item> \<open>Foreign nf msg\<close> is an error value made outside this file (by the key store, the
    API client or a library); \<open>nf\<close> tells whether it implements the interface
    \<^verbatim>\<open>notFoundError\<close> with \<^verbatim>\<open>NotFound()\<close> returning true.
  A Go \<^verbatim>\<open>error\<close> result is an \<open>error option\<close> (\<open>None\<close> is \<^verbatim>\<open>nil\<close>), a result
  \<^verbatim>\<open>(T, error)\<close> whose value is only read when the error is nil is \<open>error + T\<close>.
\<close>

datatype error =
    Errorf string "ival list"
  | Wrap error string "ival list"
  | Foreign bool string

text \<open>\<^verbatim>\<open>isNotFoundError\<close> (lines 219-226): \<^verbatim>\<open>errors.As\<close> walks the chain of wrapped errors.\<close>

fun isNotFoundError :: "error \<Rightarrow> bool" where
  "isNotFoundError (Errorf m args) = False"
| "isNotFoundError (Wrap e m args) = isNotFoundError e"
| "isNotFoundError (Foreign nf m) = nf"

text \<open>A format string that ends with an apostrophe is written with this suffix.\<close>

definition apostrophe :: string where
  "apostrophe = [CHR 0x27]"

text \<open>Decimal rendering of integers, as \<^verbatim>\<open>fmt.Sprint\<close> and \<^verbatim>\<open>%d\<close> print them.\<close>

definition digitChar :: "nat \<Rightarrow> char" where
  "digitChar d =
     (if d = 0 then CHR ''0'' else if d = 1 then CHR ''1'' else if d = 2 then CHR ''2''
      else if d = 3 then CHR ''3'' else if d = 4 then CHR ''4'' else if d = 5 then CHR ''5''
      else if d = 6 then CHR ''6'' else if d = 7 then CHR ''7'' else if d = 8 then CHR ''8''
      else CHR ''9'')"

fun showNat :: "nat \<Rightarrow> string" where
  "showNat n = (if n < 10 then [digitChar n] else showNat (n div 10) @ [digitChar (n mod 10)])"

definition showInt :: "int \<Rightarrow> string" where
  "showInt i = (if i < 0 then CHR ''-'' # showNat (nat (- i)) else showNat (nat i))"

definition unsealKeyForID :: "int \<Rightarrow> string" where
  "unsealKeyForID i = ''vault-unseal-'' @ showInt i"

definition recoveryKeyForID :: "int \<Rightarrow> string" where
  "recoveryKeyForID i = ''vault-recovery-'' @ showInt i"

definition rootTokenKey :: string where
  "rootTokenKey = ''vault-root''"

definition testKey :: string where
  "testKey = ''vault-test''"

section \<open>Configuration, capabilities and the Vault handle\<close>

text \<open>
  \<^verbatim>\<open>Config\<close>. Go's \<^verbatim>\<open>int\<close> is a 64-bit signed integer; the fields are compared and
  passed on, never computed with, so they are integers here and \<open>maxInt\<close> is the
  largest value a field can hold.
\<close>

record Config =
  SecretShares :: int
  SecretThreshold :: int
  InitRootToken :: string
  StoreRootToken :: bool
  PreFlightChecks :: bool

definition maxInt :: int where
  "maxInt = 2 ^ 63 - 1"

text \<open>
  \<^verbatim>\<open>KVService\<close> is an interface: any implementation, with a state \<open>'k\<close> of its own.
  Values are byte slices, written as strings.
\<close>

record 'k KVService =
  KV_Set :: "string \<Rightarrow> string \<Rightarrow> 'k \<Rightarrow> error option \<times> 'k"
  KV_Get :: "string \<Rightarrow> 'k \<Rightarrow> (error + string) \<times> 'k"

text \<open>
  The part of the Vault API client (\<^verbatim>\<open>*api.Client\<close>) that this file calls. Every call is
  a round trip to a remote server with a state \<open>'s\<close> of its own, which the call may
  change and which other actors change between calls; the first argument is the token
  the client sends with the request. Only the fields of the requests and responses
  that this file writes or reads are kept.
\<close>

datatype InitRequest = InitRequest int int int int
  \<comment> \<open>\<^verbatim>\<open>SecretShares, SecretThreshold, RecoveryShares, RecoveryThreshold\<close>\<close>

record InitResponse =
  Keys :: "string list"
  RecoveryKeys :: "string list"
  RootToken :: string

record SealStatusResponse =
  resp_Sealed :: bool
  resp_Progress :: int

datatype TokenCreateRequest = TokenCreateRequest string "string list" string bool
  \<comment> \<open>\<^verbatim>\<open>ID, Policies, DisplayName, NoParent\<close>\<close>

record LeaderResponse =
  resp_IsSelf :: bool
  resp_LeaderAddress :: string

datatype RaftJoinRequest = RaftJoinRequest string string
  \<comment> \<open>\<^verbatim>\<open>LeaderAPIAddr, LeaderCACert\<close>\<close>

datatype PluginType =
  PluginTypeUnknown | PluginTypeCredential | PluginTypeDatabase | PluginTypeSecrets

record RegisterPluginInput =
  plugin_Name :: string
  plugin_Type :: PluginType
  plugin_Command :: string
  plugin_SHA256 :: string

text \<open>\<^verbatim>\<open>api.Secret\<close>; a \<^verbatim>\<open>*api.Secret\<close> that may be \<^verbatim>\<open>nil\<close> is a \<open>Secret option\<close>.\<close>

record Secret =
  Data :: "(string \<times> ival) list"
  Warnings :: "string list"

record 's Client =
  Sys_InitStatus :: "string \<Rightarrow> 's \<Rightarrow> (error + bool) \<times> 's"
  Sys_Init :: "string \<Rightarrow> InitRequest \<Rightarrow> 's \<Rightarrow> (error + InitResponse) \<times> 's"
  Sys_SealStatus :: "string \<Rightarrow> 's \<Rightarrow> (error + SealStatusResponse) \<times> 's"
  Sys_Unseal :: "string \<Rightarrow> string \<Rightarrow> 's \<Rightarrow> (error + SealStatusResponse) \<times> 's"
  Token_CreateOrphan :: "string \<Rightarrow> TokenCreateRequest \<Rightarrow> 's \<Rightarrow> error option \<times> 's"
  Token_RevokeSelf :: "string \<Rightarrow> string \<Rightarrow> 's \<Rightarrow> error option \<times> 's"
  Sys_ListPlugins :: "string \<Rightarrow> 's \<Rightarrow> error option \<times> 's"
  Sys_RegisterPlugin :: "string \<Rightarrow> RegisterPluginInput \<Rightarrow> 's \<Rightarrow> error option \<times> 's"
  Sys_ListAuth :: "string \<Rightarrow> 's \<Rightarrow> (error + (string \<rightharpoonup> string)) \<times> 's"
  Logical_Read :: "string \<Rightarrow> string \<Rightarrow> 's \<Rightarrow> (error + Secret option) \<times> 's"
  Logical_List :: "string \<Rightarrow> string \<Rightarrow> 's \<Rightarrow> (error + Secret option) \<times> 's"
  Logical_Write :: "string \<Rightarrow> string \<Rightarrow> (string \<times> ival) list \<Rightarrow> 's \<Rightarrow> (error + Secret option) \<times> 's"
  Sys_Leader :: "string \<Rightarrow> 's \<Rightarrow> (error + LeaderResponse) \<times> 's"
  Sys_RaftJoin :: "string \<Rightarrow> RaftJoinRequest \<Rightarrow> 's \<Rightarrow> (error + bool) \<times> 's"
  Raw_Health :: "string \<Rightarrow> 's \<Rightarrow> (error + int) \<times> 's"

text \<open>
  What a run does to the outside is kept as a trace: one event for every call through
  the two capabilities, in the order of the calls, and one for every \<^verbatim>\<open>time.Sleep\<close> (in
  seconds). An API event holds the token sent and the call with its arguments; the two
  calls whose answer steers a loop hold the answer too. The world is the state of the
  key store, the state of the server, the token held by the client (\<^verbatim>\<open>SetToken\<close> writes
  it) and the trace so far. Log output and \<^verbatim>\<open>runtime.GC\<close> are not modelled.
\<close>

datatype call =
    InitStatus
  | SysInit InitRequest
  | SealStatus "error + SealStatusResponse"
  | SysUnseal string "error + SealStatusResponse"
  | CreateOrphan TokenCreateRequest
  | RevokeSelf string
  | ListPlugins
  | RegisterPlugin RegisterPluginInput
  | ListAuth
  | LogicalRead string
  | LogicalList string
  | LogicalWrite string "(string \<times> ival) list"
  | SysLeader
  | SysRaftJoin RaftJoinRequest
  | SysHealth

datatype event =
    KVGet string "error + string"
  | KVSet string string "error option"
  | Api string call
  | Sleep nat

record ('k, 's) world =
  kstore :: 'k
  server :: 's
  token :: string
  trace :: "event list"

record ('k, 's) vault =
  keyStore :: "'k KVService"
  cl :: "'s Client"
  config :: Config
  rotateCache :: "(string \<times> bool) list"

section \<open>Construction\<close>

text \<open>\<^verbatim>\<open>New\<close> (lines 125-136).\<close>

definition New :: "'k KVService \<Rightarrow> 's Client \<Rightarrow> Config \<Rightarrow> error + ('k, 's) vault" where
  "New k c cfg =
     (if SecretShares cfg < SecretThreshold cfg
      then Inl (Errorf ''the secret threshold can't be bigger than the shares [%d < %d]''
                  [IInt (SecretShares cfg), IInt (SecretThreshold cfg)])
      else Inr \<lparr>keyStore = k, cl = c, config = cfg, rotateCache = []\<rparr>)"

section \<open>Calls through the capabilities\<close>

definition svcGet :: "'k KVService \<Rightarrow> string \<Rightarrow> ('k, 's) world \<Rightarrow> (error + string) \<times> ('k, 's) world" where
  "svcGet K key w =
     (case KV_Get K key (kstore w) of
        (r, k') \<Rightarrow> (r, w\<lparr>kstore := k', trace := trace w @ [KVGet key r]\<rparr>))"

definition svcSet :: "'k KVService \<Rightarrow> string \<Rightarrow> string \<Rightarrow> ('k, 's) world \<Rightarrow> error option \<times> ('k, 's) world" where
  "svcSet K key val w =
     (case KV_Set K key val (kstore w) of
        (r, k') \<Rightarrow> (r, w\<lparr>kstore := k', trace := trace w @ [KVSet key val r]\<rparr>))"

definition sysInitStatus :: "'s Client \<Rightarrow> ('k, 's) world \<Rightarrow> (error + bool) \<times> ('k, 's) world" where
  "sysInitStatus c w =
     (case Sys_InitStatus c (token w) (server w) of
        (r, s') \<Rightarrow> (r, w\<lparr>server := s', trace := trace w @ [Api (token w) InitStatus]\<rparr>))"

definition sysInit :: "'s Client \<Rightarrow> InitRequest \<Rightarrow> ('k, 's) world \<Rightarrow> (error + InitResponse) \<times> ('k, 's) world" where
  "sysInit c req w =
     (case Sys_Init c (token w) req (server w) of
        (r, s') \<Rightarrow> (r, w\<lparr>server := s', trace := trace w @ [Api (token w) (SysInit req)]\<rparr>))"

definition sysSealStatus :: "'s Client \<Rightarrow> ('k, 's) world \<Rightarrow> (error + SealStatusResponse) \<times> ('k, 's) world" where
  "sysSealStatus c w =
     (case Sys_SealStatus c (token w) (server w) of
        (r, s') \<Rightarrow> (r, w\<lparr>server := s', trace := trace w @ [Api (token w) (SealStatus r)]\<rparr>))"

definition sysUnseal :: "'s Client \<Rightarrow> string \<Rightarrow> ('k, 's) world \<Rightarrow> (error + SealStatusResponse) \<times> ('k, 's) world" where
  "sysUnseal c key w =
     (case Sys_Unseal c (token w) key (server w) of
        (r, s') \<Rightarrow> (r, w\<lparr>server := s', trace := trace w @ [Api (token w) (SysUnseal key r)]\<rparr>))"

definition tokenCreateOrphan :: "'s Client \<Rightarrow> TokenCreateRequest \<Rightarrow> ('k, 's) world \<Rightarrow> error option \<times> ('k, 's) world" where
  "tokenCreateOrphan c req w =
     (case Token_CreateOrphan c (token w) req (server w) of
        (r, s') \<Rightarrow> (r, w\<lparr>server := s', trace := trace w @ [Api (token w) (CreateOrphan req)]\<rparr>))"

definition tokenRevokeSelf :: "'s Client \<Rightarrow> string \<Rightarrow> ('k, 's) world \<Rightarrow> error option \<times> ('k, 's) world" where
  "tokenRevokeSelf c t w =
     (case Token_RevokeSelf c (token w) t (server w) of
        (r, s') \<Rightarrow> (r, w\<lparr>server := s', trace := trace w @ [Api (token w) (RevokeSelf t)]\<rparr>))"

definition sysListPlugins :: "'s Client \<Rightarrow> ('k, 's) world \<Rightarrow> error option \<times> ('k, 's) world" where
  "sysListPlugins c w =
     (case Sys_ListPlugins c (token w) (server w) of
        (r, s') \<Rightarrow> (r, w\<lparr>server := s', trace := trace w @ [Api (token w) ListPlugins]\<rparr>))"

definition sysRegisterPlugin :: "'s Client \<Rightarrow> RegisterPluginInput \<Rightarrow> ('k, 's) world \<Rightarrow> error option \<times> ('k, 's) world" where
  "sysRegisterPlugin c inp w =
     (case Sys_RegisterPlugin c (token w) inp (server w) of
        (r, s') \<Rightarrow> (r, w\<lparr>server := s', trace := trace w @ [Api (token w) (RegisterPlugin inp)]\<rparr>))"

definition sysListAuth :: "'s Client \<Rightarrow> ('k, 's) world \<Rightarrow> (error + (string \<rightharpoonup> string)) \<times> ('k, 's) world" where
  "sysListAuth c w =
     (case Sys_ListAuth c (token w) (server w) of
        (r, s') \<Rightarrow> (r, w\<lparr>server := s', trace := trace w @ [Api (token w) ListAuth]\<rparr>))"

definition logicalRead :: "'s Client \<Rightarrow> string \<Rightarrow> ('k, 's) world \<Rightarrow> (error + Secret option) \<times> ('k, 's) world" where
  "logicalRead c path w =
     (case Logical_Read c (token w) path (server w) of
        (r, s') \<Rightarrow> (r, w\<lparr>server := s', trace := trace w @ [Api (token w) (LogicalRead path)]\<rparr>))"

definition logicalList :: "'s Client \<Rightarrow> string \<Rightarrow> ('k, 's) world \<Rightarrow> (error + Secret option) \<times> ('k, 's) world" where
  "logicalList c path w =
     (case Logical_List c (token w) path (server w) of
        (r, s') \<Rightarrow> (r, w\<lparr>server := s', trace := trace w @ [Api (token w) (LogicalList path)]\<rparr>))"

definition logicalWrite ::
  "'s Client \<Rightarrow> string \<Rightarrow> (string \<times> ival) list \<Rightarrow> ('k, 's) world \<Rightarrow> (error + Secret option) \<times> ('k, 's) world" where
  "logicalWrite c path data w =
     (case Logical_Write c (token w) path data (server w) of
        (r, s') \<Rightarrow> (r, w\<lparr>server := s', trace := trace w @ [Api (token w) (LogicalWrite path data)]\<rparr>))"




definition SetToken :: "string \<Rightarrow> ('k, 's) world \<Rightarrow> ('k, 's) world" where
  "SetToken t w = w\<lparr>token := t\<rparr>"

definition timeSleep :: "nat \<Rightarrow> ('k, 's) world \<Rightarrow> ('k, 's) world" where
  "timeSleep secs w = w\<lparr>trace := trace w @ [Sleep secs]\<rparr>"

section \<open>Key store helpers\<close>

text \<open>\<^verbatim>\<open>kvTester.Test\<close> (lines 113-122).\<close>

definition kvTester_Test :: "'k KVService \<Rightarrow> string \<Rightarrow> ('k, 's) world \<Rightarrow> error option \<times> ('k, 's) world" where
  "kvTester_Test K key w =
     (case svcGet K key w of
        (Inl err, w1) \<Rightarrow>
          if \<not> isNotFoundError err then (Some err, w1)
          else svcSet K key key w1
      | (Inr val, w1) \<Rightarrow> svcSet K key key w1)"

text \<open>
  \<^verbatim>\<open>keyStoreNotFound\<close> (lines 228-235) returns the Go pair \<^verbatim>\<open>(bool, error)\<close>: the callers
  read both components.
\<close>

definition keyStoreNotFound :: "('k, 's) vault \<Rightarrow> string \<Rightarrow> ('k, 's) world \<Rightarrow> (bool \<times> error option) \<times> ('k, 's) world" where
  "keyStoreNotFound v key w =
     (case svcGet (keyStore v) key w of
        (Inl err, w1) \<Rightarrow>
          if isNotFoundError err then ((True, None), w1)
          else ((False, Some err), w1)
      | (Inr val, w1) \<Rightarrow> ((False, None), w1))"

text \<open>\<^verbatim>\<open>keyStoreSet\<close> (lines 237-246).\<close>

definition keyStoreSet :: "('k, 's) vault \<Rightarrow> string \<Rightarrow> string \<Rightarrow> ('k, 's) world \<Rightarrow> error option \<times> ('k, 's) world" where
  "keyStoreSet v key val w =
     (case keyStoreNotFound v key w of
        ((notFound, err), w1) \<Rightarrow>
          if notFound then svcSet (keyStore v) key val w1
          else (case err of
                  None \<Rightarrow> (Some (Errorf ''error setting key '%s': it already exists'' [IStr key]), w1)
                | Some e \<Rightarrow> (Some (Wrap e (''error setting key '%s'' @ apostrophe) [IStr key]), w1)))"

section \<open>Status and unsealing\<close>

text \<open>
  \<^verbatim>\<open>Sealed\<close> (lines 138-145) returns the Go pair \<^verbatim>\<open>(bool, error)\<close>; on an error the boolean
  is \<^verbatim>\<open>false\<close>.
\<close>

definition Sealed :: "('k, 's) vault \<Rightarrow> ('k, 's) world \<Rightarrow> (bool \<times> error option) \<times> ('k, 's) world" where
  "Sealed v w =
     (case sysSealStatus (cl v) w of
        (Inl err, w1) \<Rightarrow> ((False, Some (Wrap err ''error checking status'' [])), w1)
      | (Inr resp, w1) \<Rightarrow> ((resp_Sealed resp, None), w1))"

text \<open>\<^verbatim>\<open>i++\<close> on a Go \<^verbatim>\<open>int\<close>: the successor, wrapping at the largest value.\<close>

definition intSucc :: "int \<Rightarrow> int" where
  "intSucc i = (if i = maxInt then - maxInt - 1 else i + 1)"

text \<open>
  \<^verbatim>\<open>Unseal\<close> (lines 185-213). The loop \<^verbatim>\<open>for i := 0; ; i++\<close> has no exit condition of its
  own, so it is a partial function: \<open>None\<close> is a run that never returns.
\<close>

partial_function (option) Unseal_loop ::
  "('k, 's) vault \<Rightarrow> int \<Rightarrow> ('k, 's) world \<Rightarrow> (error option \<times> ('k, 's) world) option" where
  "Unseal_loop v i w =
     (case svcGet (keyStore v) (unsealKeyForID i) w of
        (Inl err, w1) \<Rightarrow>
          Some (Some (Wrap err (''unable to get key '%s'' @ apostrophe) [IStr (unsealKeyForID i)]), w1)
      | (Inr k, w1) \<Rightarrow>
          (case sysUnseal (cl v) k w1 of
             (Inl err, w2) \<Rightarrow> Some (Some (Wrap err ''fail to send unseal request to vault'' []), w2)
           | (Inr resp, w2) \<Rightarrow>
               if \<not> resp_Sealed resp then Some (None, w2)
               else if resp_Progress resp = 0
               then Some (Some (Errorf ''failed to unseal vault, are you using the right unseal keys?'' []), w2)
               else Unseal_loop v (intSucc i) w2))"

definition Unseal :: "('k, 's) vault \<Rightarrow> ('k, 's) world \<Rightarrow> (error option \<times> ('k, 's) world) option" where
  "Unseal v w = Unseal_loop v 0 w"

section \<open>Initialisation\<close>

text \<open>The loop over \<^verbatim>\<open>keys\<close> of lines 281-289.\<close>

fun testEveryKey :: "('k, 's) vault \<Rightarrow> string list \<Rightarrow> ('k, 's) world \<Rightarrow> error option \<times> ('k, 's) world" where
  "testEveryKey v [] w = (None, w)"
| "testEveryKey v (key # keys) w =
     (case keyStoreNotFound v key w of
        ((notFound, err), w1) \<Rightarrow>
          if notFound \<and> err \<noteq> None
          then (Some (Wrap (the err) ''error before init: checking key '%s' failed'' [IStr key]), w1)
          else if \<not> notFound \<and> err = None
          then (Some (Errorf ''error before init: value for key '%s' already exists'' [IStr key]), w1)
          else testEveryKey v keys w1)"

text \<open>The loops over \<^verbatim>\<open>resp.Keys\<close> (lines 301-309) and \<^verbatim>\<open>resp.RecoveryKeys\<close> (lines 311-319).\<close>

fun storeUnsealKeys :: "('k, 's) vault \<Rightarrow> int \<Rightarrow> string list \<Rightarrow> ('k, 's) world \<Rightarrow> error option \<times> ('k, 's) world" where
  "storeUnsealKeys v i [] w = (None, w)"
| "storeUnsealKeys v i (k # ks) w =
     (case keyStoreSet v (unsealKeyForID i) k w of
        (Some err, w1) \<Rightarrow> (Some (Wrap err (''error storing unseal key '%s'' @ apostrophe) [IStr (unsealKeyForID i)]), w1)
      | (None, w1) \<Rightarrow> storeUnsealKeys v (i + 1) ks w1)"

fun storeRecoveryKeys :: "('k, 's) vault \<Rightarrow> int \<Rightarrow> string list \<Rightarrow> ('k, 's) world \<Rightarrow> error option \<times> ('k, 's) world" where
  "storeRecoveryKeys v i [] w = (None, w)"
| "storeRecoveryKeys v i (k # ks) w =
     (case keyStoreSet v (recoveryKeyForID i) k w of
        (Some err, w1) \<Rightarrow> (Some (Wrap err (''error storing recovery key '%s'' @ apostrophe) [IStr (recoveryKeyForID i)]), w1)
      | (None, w1) \<Rightarrow> storeRecoveryKeys v (i + 1) ks w1)"

text \<open>
  The wait loop of lines 328-340, with \<^verbatim>\<open>wait\<close> being two seconds. It has no bound, so it
  is a partial function as well.
\<close>

partial_function (option) waitUnsealed :: "('k, 's) vault \<Rightarrow> ('k, 's) world \<Rightarrow> ('k, 's) world option" where
  "waitUnsealed v w =
     (case Sealed v w of
        ((sealed, err), w1) \<Rightarrow>
          if \<not> sealed then Some w1
          else waitUnsealed v (timeSleep 2 w1))"

text \<open>
  The block of lines 324-363, run when \<^verbatim>\<open>InitRootToken\<close> is not empty: \<open>Some (Some err, w)\<close>
  is a return from \<^verbatim>\<open>Init\<close> with that error, \<open>Some (None, w)\<close> the end of the block.
\<close>

definition setupInitRootToken ::
  "('k, 's) vault \<Rightarrow> InitResponse \<Rightarrow> ('k, 's) world \<Rightarrow> (error option \<times> ('k, 's) world) option" where
  "setupInitRootToken v resp w =
     (case waitUnsealed v w of
        None \<Rightarrow> None
      | Some w1 \<Rightarrow>
          (case tokenCreateOrphan (cl v)
                  (TokenCreateRequest (InitRootToken (config v)) [''root''] ''root-token'' True)
                  (SetToken (RootToken resp) w1) of
             (Some err, w2) \<Rightarrow>
               Some (Some (Wrap err ''unable to setup requested root token, (temporary root token: '%s')''
                                 [IStr (RootToken resp)]), w2)
           | (None, w2) \<Rightarrow>
               (case tokenRevokeSelf (cl v) (RootToken resp) w2 of
                  (Some err, w3) \<Rightarrow> Some (Some (Wrap err ''unable to revoke temporary root token'' []), w3)
                | (None, w3) \<Rightarrow> Some (None, w3))))"

text \<open>
  Lines 301-376 of \<^verbatim>\<open>Init\<close>: what follows the answer \<open>resp\<close> of the remote init call.
  The local variable \<^verbatim>\<open>rootToken\<close> is \<^verbatim>\<open>resp.RootToken\<close> at line 321 and
  \<^verbatim>\<open>v.config.InitRootToken\<close> after line 362.
\<close>

definition Init_persist ::
  "('k, 's) vault \<Rightarrow> InitResponse \<Rightarrow> ('k, 's) world \<Rightarrow> (error option \<times> ('k, 's) world) option" where
  "Init_persist v resp w =
     (case storeUnsealKeys v 0 (Keys resp) w of
        (Some err, w1) \<Rightarrow> Some (Some err, w1)
      | (None, w1) \<Rightarrow>
          (case storeRecoveryKeys v 0 (RecoveryKeys resp) w1 of
             (Some err, w2) \<Rightarrow> Some (Some err, w2)
           | (None, w2) \<Rightarrow>
               (case (if InitRootToken (config v) \<noteq> [] then setupInitRootToken v resp w2
                      else Some (None, w2)) of
                  None \<Rightarrow> None
                | Some (Some err, w3) \<Rightarrow> Some (Some err, w3)
                | Some (None, w3) \<Rightarrow>
                    (let rootToken = (if InitRootToken (config v) \<noteq> [] then InitRootToken (config v)
                                      else RootToken resp)
                     in if StoreRootToken (config v)
                        then (case keyStoreSet v rootTokenKey (RootToken resp) w3 of
                                (Some err, w4) \<Rightarrow>
                                  Some (Some (Wrap err (''error storing root token '%s' in key'%s'' @ apostrophe)
                                                   [IStr rootToken, IStr rootTokenKey]), w4)
                              | (None, w4) \<Rightarrow> Some (None, w4))
                        else Some (None, w3)))))"

text \<open>
  \<^verbatim>\<open>Init\<close> (lines 249-376). The loop of lines 277-279 counts \<^verbatim>\<open>i\<close> from 0 while
  \<^verbatim>\<open>i <= SecretShares\<close>; when \<^verbatim>\<open>SecretShares\<close> is the largest \<^verbatim>\<open>int\<close>, \<^verbatim>\<open>i++\<close> wraps and the
  loop never ends, which is the result \<open>None\<close>.
\<close>

definition Init :: "('k, 's) vault \<Rightarrow> ('k, 's) world \<Rightarrow> (error option \<times> ('k, 's) world) option" where
  "Init v w =
     (case sysInitStatus (cl v) w of
        (Inl err, w1) \<Rightarrow> Some (Some (Wrap err ''error testing if vault is initialized'' []), w1)
      | (Inr initialized, w1) \<Rightarrow>
          if initialized then Some (None, w1)
          else
            (case (if PreFlightChecks (config v) then kvTester_Test (keyStore v) testKey w1
                   else (None, w1)) of
               (Some err, w2) \<Rightarrow> Some (Some (Wrap err ''error testing keystore before init'' []), w2)
             | (None, w2) \<Rightarrow>
                 if SecretShares (config v) = maxInt then None
                 else
                   (case testEveryKey v (rootTokenKey # map unsealKeyForID [0..SecretShares (config v)]) w2 of
                      (Some err, w3) \<Rightarrow> Some (Some err, w3)
                    | (None, w3) \<Rightarrow>
                        (case sysInit (cl v)
                                (InitRequest (SecretShares (config v)) (SecretThreshold (config v))
                                             (SecretShares (config v)) (SecretThreshold (config v))) w3 of
                           (Inl err, w4) \<Rightarrow> Some (Some (Wrap err ''error initializing vault'' []), w4)
                         | (Inr resp, w4) \<Rightarrow> Init_persist v resp w4))))"

section \<open>Health, leader and raft\<close>









section \<open>The runs of the two loops, cut off\<close>






section \<open>Configuration documents and casts\<close>

text \<open>
  A record of a configuration document is a Go \<^verbatim>\<open>map[string]interface{}\<close>; reading a key
  that is absent yields \<^verbatim>\<open>nil\<close>.
\<close>

definition mapIndex :: "(string \<rightharpoonup> ival) \<Rightarrow> string \<Rightarrow> ival" where
  "mapIndex m key = (case m key of None \<Rightarrow> INil | Some x \<Rightarrow> x)"

text \<open>
  \<^verbatim>\<open>cast.ToStringE\<close> and \<^verbatim>\<open>cast.ToString\<close> of the library \<^verbatim>\<open>spf13/cast\<close>, on the kinds of
  values above: a string is returned as it is, a boolean and an integer are printed,
  \<^verbatim>\<open>nil\<close> gives the empty string, and a slice or a map cannot be cast.
\<close>

definition cast_ToStringE :: "ival \<Rightarrow> error + string" where
  "cast_ToStringE i =
     (case i of
        IStr s \<Rightarrow> Inr s
      | IBool b \<Rightarrow> Inr (if b then ''true'' else ''false'')
      | IInt n \<Rightarrow> Inr (showInt n)
      | INil \<Rightarrow> Inr []
      | ISlice xs \<Rightarrow> Inl (Foreign False ''unable to cast to string'')
      | IMap kvs \<Rightarrow> Inl (Foreign False ''unable to cast to string''))"

definition cast_ToString :: "ival \<Rightarrow> string" where
  "cast_ToString i = (case cast_ToStringE i of Inl err \<Rightarrow> [] | Inr s \<Rightarrow> s)"

text \<open>\<^verbatim>\<open>getOrError\<close> (lines 936-942).\<close>

definition getOrError :: "(string \<rightharpoonup> ival) \<Rightarrow> string \<Rightarrow> error + string" where
  "getOrError m key =
     (let value = mapIndex m key
      in if value \<noteq> INil then cast_ToStringE value
         else Inl (Errorf ''value for %s is not set'' [IStr key]))"

text \<open>\<^verbatim>\<open>consts.ParsePluginType\<close> of the Vault SDK.\<close>

definition ParsePluginType :: "string \<Rightarrow> error + PluginType" where
  "ParsePluginType pluginType =
     (if pluginType = ''unknown'' then Inr PluginTypeUnknown
      else if pluginType = ''auth'' then Inr PluginTypeCredential
      else if pluginType = ''database'' then Inr PluginTypeDatabase
      else if pluginType = ''secret'' then Inr PluginTypeSecrets
      else Inl (Foreign False ''not a supported plugin type''))"

text \<open>
  The document (\<^verbatim>\<open>*viper.Viper\<close>) is what its accessors return: \<^verbatim>\<open>config.Unmarshal\<close> into
  the external configuration, and \<^verbatim>\<open>config.UnmarshalKey\<close> for the keys \<^verbatim>\<open>plugins\<close>,
  \<^verbatim>\<open>groups\<close> and \<^verbatim>\<open>group-aliases\<close>.
\<close>

record document =
  doc_Unmarshal :: "error option"
  doc_plugins :: "error + (string \<rightharpoonup> ival) list"
  doc_groups :: "error + (string \<rightharpoonup> ival) list"
  doc_group_aliases :: "error + (string \<rightharpoonup> ival) list"

section \<open>Plugins\<close>

text \<open>The loop of lines 537-573 of \<^verbatim>\<open>configurePlugins\<close>.\<close>

fun registerPlugins ::
  "('k, 's) vault \<Rightarrow> (string \<rightharpoonup> ival) list \<Rightarrow> ('k, 's) world \<Rightarrow> error option \<times> ('k, 's) world" where
  "registerPlugins v [] w = (None, w)"
| "registerPlugins v (plugin # plugins) w =
     (case getOrError plugin ''command'' of
        Inl err \<Rightarrow> (Some (Wrap err ''error getting command for plugin'' []), w)
      | Inr command \<Rightarrow>
     (case getOrError plugin ''plugin_name'' of
        Inl err \<Rightarrow> (Some (Wrap err ''error getting plugin_name for plugin'' []), w)
      | Inr pluginName \<Rightarrow>
     (case getOrError plugin ''sha256'' of
        Inl err \<Rightarrow> (Some (Wrap err ''error getting sha256 for plugin'' []), w)
      | Inr sha256 \<Rightarrow>
     (case getOrError plugin ''type'' of
        Inl err \<Rightarrow> (Some (Wrap err ''error getting type for plugin'' []), w)
      | Inr typeRaw \<Rightarrow>
     (case ParsePluginType typeRaw of
        Inl err \<Rightarrow> (Some (Wrap err ''error parsing type for plugin'' []), w)
      | Inr pluginType \<Rightarrow>
     (case sysRegisterPlugin (cl v)
             \<lparr>plugin_Name = pluginName, plugin_Type = pluginType,
              plugin_Command = command, plugin_SHA256 = sha256\<rparr> w of
        (Some err, w1) \<Rightarrow> (Some (Wrap err ''error registering plugin %s in vault'' [IStr pluginName]), w1)
      | (None, w1) \<Rightarrow> registerPlugins v plugins w1))))))"

text \<open>\<^verbatim>\<open>configurePlugins\<close> (lines 519-576).\<close>

definition configurePlugins ::
  "('k, 's) vault \<Rightarrow> document \<Rightarrow> ('k, 's) world \<Rightarrow> error option \<times> ('k, 's) world" where
  "configurePlugins v doc w =
     (case doc_plugins doc of
        Inl err \<Rightarrow> (Some (Wrap err ''error unmarshalling vault plugins config'' []), w)
      | Inr plugins \<Rightarrow>
          if length plugins = 0 then (None, w)
          else
            (case sysListPlugins (cl v) w of
               (Some err, w1) \<Rightarrow> (Some (Wrap err ''failed to retrieve list of plugins'' []), w1)
             | (None, w1) \<Rightarrow> registerPlugins v plugins w1))"

section \<open>Identity groups and group aliases\<close>

text \<open>
  A type assertion \<^verbatim>\<open>x.(T)\<close> on a value of another type panics. A function that can panic
  has a result with three cases; a panic is passed up by every caller.
\<close>

datatype 'a result = Ok 'a | Err error | Panic string

text \<open>
  The verb \<^verbatim>\<open>%s\<close> of \<^verbatim>\<open>fmt.Sprintf\<close> on a value of type \<^verbatim>\<open>interface{}\<close>. The pairs of a
  map are printed in the order in which they are kept.
\<close>

fun joinWith :: "string \<Rightarrow> string list \<Rightarrow> string" where
  "joinWith sep [] = []"
| "joinWith sep [x] = x"
| "joinWith sep (x # y # ys) = x @ sep @ joinWith sep (y # ys)"

fun fmt_s :: "ival \<Rightarrow> string" where
  "fmt_s (IStr s) = s"
| "fmt_s INil = ''%!s(<nil>)''"
| "fmt_s (IBool b) = ''%!s(bool='' @ (if b then ''true'' else ''false'') @ '')''"
| "fmt_s (IInt n) = ''%!s(int='' @ showInt n @ '')''"
| "fmt_s (ISlice xs) = ''['' @ joinWith '' '' (map fmt_s xs) @ '']''"
| "fmt_s (IMap kvs) = ''map['' @ joinWith '' '' (map (\<lambda>kv. fst kv @ '':'' @ fmt_s (snd kv)) kvs) @ '']''"

text \<open>\<^verbatim>\<open>strings.TrimRight(path, "/")\<close>.\<close>

definition trimRightSlash :: "string \<Rightarrow> string" where
  "trimRightSlash path = rev (dropWhile (\<lambda>c. c = CHR ''/'') (rev path))"

text \<open>\<^verbatim>\<open>writeWithWarningCheck\<close> (lines 676-687); the warnings are only logged.\<close>

definition writeWithWarningCheck ::
  "('k, 's) vault \<Rightarrow> string \<Rightarrow> (string \<times> ival) list \<Rightarrow> ('k, 's) world \<Rightarrow> (error + Secret option) \<times> ('k, 's) world" where
  "writeWithWarningCheck v path data w =
     (case logicalWrite (cl v) path data w of
        (Inl err, w1) \<Rightarrow> (Inl err, w1)
      | (Inr sec, w1) \<Rightarrow> (Inr sec, w1))"

text \<open>\<^verbatim>\<open>readVaultGroup\<close> (lines 729-739) and \<^verbatim>\<open>readVaultGroupAlias\<close> (lines 741-751).\<close>

definition readVaultGroup :: "string \<Rightarrow> 's Client \<Rightarrow> ('k, 's) world \<Rightarrow> (error + Secret option) \<times> ('k, 's) world" where
  "readVaultGroup groupName client w =
     (case logicalRead client (''identity/group/name/'' @ groupName) w of
        (Inl err, w1) \<Rightarrow> (Inl (Wrap err ''failed to read group %s by name'' [IStr groupName]), w1)
      | (Inr None, w1) \<Rightarrow> (Inr None, w1)
      | (Inr (Some secret), w1) \<Rightarrow> (Inr (Some secret), w1))"

definition readVaultGroupAlias :: "string \<Rightarrow> 's Client \<Rightarrow> ('k, 's) world \<Rightarrow> (error + Secret option) \<times> ('k, 's) world" where
  "readVaultGroupAlias ident client w =
     (case logicalRead client (''identity/group-alias/id/'' @ ident) w of
        (Inl err, w1) \<Rightarrow> (Inl (Wrap err ''failed to read group alias by id %s'' [IStr ident]), w1)
      | (Inr None, w1) \<Rightarrow> (Inr None, w1)
      | (Inr (Some secret), w1) \<Rightarrow> (Inr (Some secret), w1))"

text \<open>\<^verbatim>\<open>getVaultAuthMountAccessor\<close> (lines 753-763); the mount table maps a path to its accessor.\<close>

definition getVaultAuthMountAccessor :: "string \<Rightarrow> 's Client \<Rightarrow> ('k, 's) world \<Rightarrow> (error + string) \<times> ('k, 's) world" where
  "getVaultAuthMountAccessor path0 client w =
     (let path = trimRightSlash path0 @ ''/''
      in case sysListAuth client w of
           (Inl err, w1) \<Rightarrow> (Inl (Wrap err ''failed to read auth mounts from vault'' []), w1)
         | (Inr mounts, w1) \<Rightarrow>
             (case mounts path of
                None \<Rightarrow> (Inl (Errorf ''auth mount path %s does not exist in vault'' [IStr path]), w1)
              | Some accessor \<Rightarrow> (Inr accessor, w1)))"

text \<open>
  The type assertion \<^verbatim>\<open>secret.Data[key].(string)\<close> of lines 773, 784 and 795.
\<close>

definition dataString :: "Secret \<Rightarrow> string \<Rightarrow> string result" where
  "dataString secret key =
     (case map_of (Data secret) key of
        Some (IStr s) \<Rightarrow> Ok s
      | _ \<Rightarrow> Panic ''interface conversion: interface {} is not string'')"

text \<open>\<^verbatim>\<open>getVaultGroupID\<close> (lines 765-774).\<close>

definition getVaultGroupID :: "string \<Rightarrow> 's Client \<Rightarrow> ('k, 's) world \<Rightarrow> string result \<times> ('k, 's) world" where
  "getVaultGroupID groupName client w =
     (case readVaultGroup groupName client w of
        (Inl err, w1) \<Rightarrow> (Err (Wrap err ''error reading group %s'' [IStr groupName]), w1)
      | (Inr None, w1) \<Rightarrow> (Err (Errorf ''group %s does not exist'' [IStr groupName]), w1)
      | (Inr (Some g), w1) \<Rightarrow> (dataString g ''id'', w1))"

text \<open>\<^verbatim>\<open>getVaultGroupAliasName\<close> (lines 776-785) and \<^verbatim>\<open>getVaultGroupAliasMount\<close> (lines 787-796).\<close>

definition getVaultGroupAliasName :: "string \<Rightarrow> 's Client \<Rightarrow> ('k, 's) world \<Rightarrow> string result \<times> ('k, 's) world" where
  "getVaultGroupAliasName aliasID client w =
     (case readVaultGroupAlias aliasID client w of
        (Inl err, w1) \<Rightarrow> (Err (Wrap err ''error reading group alias %s'' [IStr aliasID]), w1)
      | (Inr None, w1) \<Rightarrow> (Err (Errorf ''group alias %s does not exist'' [IStr aliasID]), w1)
      | (Inr (Some alias), w1) \<Rightarrow> (dataString alias ''name'', w1))"

definition getVaultGroupAliasMount :: "string \<Rightarrow> 's Client \<Rightarrow> ('k, 's) world \<Rightarrow> string result \<times> ('k, 's) world" where
  "getVaultGroupAliasMount aliasID client w =
     (case readVaultGroupAlias aliasID client w of
        (Inl err, w1) \<Rightarrow> (Err (Wrap err ''error reading group alias %s'' [IStr aliasID]), w1)
      | (Inr None, w1) \<Rightarrow> (Err (Errorf ''group alias %s does not exist'' [IStr aliasID]), w1)
      | (Inr (Some alias), w1) \<Rightarrow> (dataString alias ''mount_accessor'', w1))"

text \<open>The loop of lines 807-821 over the listed alias IDs.\<close>

fun findAliasLoop ::
  "string \<Rightarrow> string \<Rightarrow> 's Client \<Rightarrow> ival list \<Rightarrow> ('k, 's) world \<Rightarrow> string result \<times> ('k, 's) world" where
  "findAliasLoop name accessor client [] w = (Ok [], w)"
| "findAliasLoop name accessor client (alias # rest) w =
     (case getVaultGroupAliasName (cast_ToString alias) client w of
        (Panic p, w1) \<Rightarrow> (Panic p, w1)
      | (Err err, w1) \<Rightarrow> (Err (Wrap err ''error fetching name for alias id: %s err'' [alias]), w1)
      | (Ok aliasName, w1) \<Rightarrow>
          (case getVaultGroupAliasMount (cast_ToString alias) client w1 of
             (Panic p, w2) \<Rightarrow> (Panic p, w2)
           | (Err err, w2) \<Rightarrow> (Err (Wrap err ''error fetching mount for alias id: %s err'' [alias]), w2)
           | (Ok aliasMount, w2) \<Rightarrow>
               if aliasName = name \<and> aliasMount = accessor then (Ok (cast_ToString alias), w2)
               else findAliasLoop name accessor client rest w2))"

text \<open>
  \<^verbatim>\<open>findVaultGroupAliasIDFromNameAndMount\<close> (lines 798-825); line 807 asserts that the
  listed \<^verbatim>\<open>keys\<close> are a slice.
\<close>

definition findVaultGroupAliasIDFromNameAndMount ::
  "string \<Rightarrow> string \<Rightarrow> 's Client \<Rightarrow> ('k, 's) world \<Rightarrow> string result \<times> ('k, 's) world" where
  "findVaultGroupAliasIDFromNameAndMount name accessor client w =
     (case logicalList client ''identity/group-alias/id'' w of
        (Inl err, w1) \<Rightarrow> (Err (Wrap err ''error listing group aliases'' []), w1)
      | (Inr None, w1) \<Rightarrow> (Ok [], w1)
      | (Inr (Some aliases), w1) \<Rightarrow>
          (case map_of (Data aliases) ''keys'' of
             Some (ISlice keys) \<Rightarrow> findAliasLoop name accessor client keys w1
           | _ \<Rightarrow> (Panic ''interface conversion: interface {} is not []interface {}'', w1)))"

text \<open>
  What \<^verbatim>\<open>Configure\<close> calls and this development does not look into: the methods
  \<^verbatim>\<open>configureAuthMethods\<close>, \<^verbatim>\<open>configurePolicies\<close> and \<^verbatim>\<open>configureSecretsEngines\<close>, which
  are defined in other files, the methods \<^verbatim>\<open>configureAuditDevices\<close> and
  \<^verbatim>\<open>configureStartupSecrets\<close>, and the library functions \<^verbatim>\<open>cast.ToStringSlice\<close> and
  \<^verbatim>\<open>cast.ToStringMap\<close>. They are parameters: a method is any function of the handle, the
  document and the world, with any of the three results.
\<close>

record ('k, 's) collaborators =
  configureAuthMethods :: "('k, 's) vault \<Rightarrow> document \<Rightarrow> ('k, 's) world \<Rightarrow> unit result \<times> ('k, 's) world"
  configurePolicies :: "('k, 's) vault \<Rightarrow> document \<Rightarrow> ('k, 's) world \<Rightarrow> unit result \<times> ('k, 's) world"
  configureSecretsEngines :: "('k, 's) vault \<Rightarrow> document \<Rightarrow> ('k, 's) world \<Rightarrow> unit result \<times> ('k, 's) world"
  configureAuditDevices :: "('k, 's) vault \<Rightarrow> document \<Rightarrow> ('k, 's) world \<Rightarrow> unit result \<times> ('k, 's) world"
  configureStartupSecrets :: "('k, 's) vault \<Rightarrow> document \<Rightarrow> ('k, 's) world \<Rightarrow> unit result \<times> ('k, 's) world"
  cast_ToStringSlice :: "ival \<Rightarrow> ival"
  cast_ToStringMap :: "ival \<Rightarrow> ival"

text \<open>
  The loop of lines 841-873 over the groups. A Go map literal is written as the list of
  its pairs.
\<close>

fun configureGroups ::
  "('k, 's) collaborators \<Rightarrow> ('k, 's) vault \<Rightarrow> (string \<rightharpoonup> ival) list \<Rightarrow> ('k, 's) world
   \<Rightarrow> error option \<times> ('k, 's) world" where
  "configureGroups X v [] w = (None, w)"
| "configureGroups X v (grp # groups) w =
     (case readVaultGroup (cast_ToString (mapIndex grp ''name'')) (cl v) w of
        (Inl err, w1) \<Rightarrow> (Some (Wrap err ''error reading group'' []), w1)
      | (Inr g, w1) \<Rightarrow>
          if cast_ToString (mapIndex grp ''type'') \<noteq> ''external''
          then (Some (Errorf ''only external groups are supported for now'' []), w1)
          else
            (let config = [(''name'', IStr (cast_ToString (mapIndex grp ''name''))),
                           (''type'', IStr (cast_ToString (mapIndex grp ''type''))),
                           (''policies'', cast_ToStringSlice X (mapIndex grp ''policies'')),
                           (''metadata'', cast_ToStringMap X (mapIndex grp ''metadata''))]
             in case g of
                  None \<Rightarrow>
                    (case writeWithWarningCheck v ''identity/group'' config w1 of
                       (Inl err, w2) \<Rightarrow> (Some (Wrap err ''failed to create group %s'' [mapIndex grp ''name'']), w2)
                     | (Inr sec, w2) \<Rightarrow> configureGroups X v groups w2)
                | Some secret \<Rightarrow>
                    (case writeWithWarningCheck v (''identity/group/name/'' @ fmt_s (mapIndex grp ''name''))
                            config w1 of
                       (Inl err, w2) \<Rightarrow> (Some (Wrap err ''failed to tune group %s'' [mapIndex grp ''name'']), w2)
                     | (Inr sec, w2) \<Rightarrow> configureGroups X v groups w2)))"

text \<open>The loop of lines 877-913 over the group aliases.\<close>

fun configureGroupAliases ::
  "('k, 's) vault \<Rightarrow> (string \<rightharpoonup> ival) list \<Rightarrow> ('k, 's) world \<Rightarrow> unit result \<times> ('k, 's) world" where
  "configureGroupAliases v [] w = (Ok (), w)"
| "configureGroupAliases v (groupAlias # groupAliases) w =
     (case getVaultAuthMountAccessor (cast_ToString (mapIndex groupAlias ''mountpath'')) (cl v) w of
        (Inl err, w1) \<Rightarrow>
          (Err (Wrap err ''error getting mount accessor for %s'' [mapIndex groupAlias ''mountpath'']), w1)
      | (Inr accessor, w1) \<Rightarrow>
     (case getVaultGroupID (cast_ToString (mapIndex groupAlias ''group'')) (cl v) w1 of
        (Panic p, w2) \<Rightarrow> (Panic p, w2)
      | (Err err, w2) \<Rightarrow>
          (Err (Wrap err ''error getting canonical_id for group %s'' [mapIndex groupAlias ''group'']), w2)
      | (Ok ident, w2) \<Rightarrow>
     (let config = [(''name'', IStr (cast_ToString (mapIndex groupAlias ''name''))),
                    (''mount_accessor'', IStr accessor),
                    (''canonical_id'', IStr ident)]
      in case findVaultGroupAliasIDFromNameAndMount (cast_ToString (mapIndex groupAlias ''name''))
                accessor (cl v) w2 of
           (Panic p, w3) \<Rightarrow> (Panic p, w3)
         | (Err err, w3) \<Rightarrow> (Err (Wrap err ''error finding group-alias %s'' [mapIndex groupAlias ''name'']), w3)
         | (Ok ga, w3) \<Rightarrow>
             if ga = []
             then (case writeWithWarningCheck v ''identity/group-alias'' config w3 of
                     (Inl err, w4) \<Rightarrow>
                       (Err (Wrap err ''failed to create group-alias %s'' [mapIndex groupAlias ''name'']), w4)
                   | (Inr sec, w4) \<Rightarrow> configureGroupAliases v groupAliases w4)
             else (case writeWithWarningCheck v (''identity/group-alias/id/'' @ ga) config w3 of
                     (Inl err, w4) \<Rightarrow> (Err (Wrap err ''failed to tune group-alias %s'' [IStr ga]), w4)
                   | (Inr sec, w4) \<Rightarrow> configureGroupAliases v groupAliases w4))))"

text \<open>\<^verbatim>\<open>configureIdentityGroups\<close> (lines 827-916).\<close>

definition configureIdentityGroups ::
  "('k, 's) collaborators \<Rightarrow> ('k, 's) vault \<Rightarrow> document \<Rightarrow> ('k, 's) world \<Rightarrow> unit result \<times> ('k, 's) world" where
  "configureIdentityGroups X v doc w =
     (case doc_groups doc of
        Inl err \<Rightarrow> (Err (Wrap err ''error unmarshalling vault groups config'' []), w)
      | Inr groups \<Rightarrow>
          (case doc_group_aliases doc of
             Inl err \<Rightarrow> (Err (Wrap err ''error unmarshalling vault group aliases config'' []), w)
           | Inr groupAliases \<Rightarrow>
               (case configureGroups X v groups w of
                  (Some err, w1) \<Rightarrow> (Err err, w1)
                | (None, w1) \<Rightarrow> configureGroupAliases v groupAliases w1)))"

section \<open>Configure\<close>

text \<open>
  One step of lines 463-498: run \<open>f\<close>; an error is wrapped with the message of the step
  and returned, a panic goes up, and otherwise the rest \<open>k\<close> runs.
\<close>

definition stepThen ::
  "('w \<Rightarrow> unit result \<times> 'w) \<Rightarrow> string \<Rightarrow> ('w \<Rightarrow> unit result \<times> 'w) \<Rightarrow> 'w \<Rightarrow> unit result \<times> 'w" where
  "stepThen f msg k w =
     (case f w of
        (Ok u, w1) \<Rightarrow> k w1
      | (Err err, w1) \<Rightarrow> (Err (Wrap err msg []), w1)
      | (Panic p, w1) \<Rightarrow> (Panic p, w1))"

definition fromError :: "error option \<times> 'w \<Rightarrow> unit result \<times> 'w" where
  "fromError r = (case r of (None, w1) \<Rightarrow> (Ok (), w1) | (Some err, w1) \<Rightarrow> (Err err, w1))"

text \<open>Lines 463-500 of \<^verbatim>\<open>Configure\<close>: the steps that run between the deferred calls' registration and the return.\<close>

definition Configure_steps ::
  "('k, 's) collaborators \<Rightarrow> ('k, 's) vault \<Rightarrow> document \<Rightarrow> ('k, 's) world \<Rightarrow> unit result \<times> ('k, 's) world" where
  "Configure_steps X v doc =
     stepThen (\<lambda>w. fromError (doc_Unmarshal doc, w)) ''error loading externalConfig''
    (stepThen (configureAuthMethods X v doc) ''error configuring auth methods for vault''
    (stepThen (configurePolicies X v doc) ''error configuring policies for vault''
    (stepThen (configureSecretsEngines X v doc) ''error configuring secret engines for vault''
    (stepThen (\<lambda>w. fromError (configurePlugins v doc w)) ''error configuring plugins for vault''
    (stepThen (configureAuditDevices X v doc) ''error configuring audit devices for vault''
    (stepThen (configureStartupSecrets X v doc) ''error writing startup secrets to vault''
    (stepThen (configureIdentityGroups X v doc) ''error writing groups configurations for vault''
    (\<lambda>w. (Ok (), w)))))))))"

text \<open>
  \<^verbatim>\<open>Configure\<close> (lines 448-501). The deferred \<^verbatim>\<open>v.cl.SetToken("")\<close> is registered at line 460,
  after the root token was read and set; it runs when the function returns and when it
  panics.
\<close>

definition Configure ::
  "('k, 's) collaborators \<Rightarrow> ('k, 's) vault \<Rightarrow> document \<Rightarrow> ('k, 's) world \<Rightarrow> unit result \<times> ('k, 's) world" where
  "Configure X v doc w =
     (case svcGet (keyStore v) rootTokenKey w of
        (Inl err, w1) \<Rightarrow> (Err (Wrap err (''unable to get key '%s'' @ apostrophe) [IStr rootTokenKey]), w1)
      | (Inr rootToken, w1) \<Rightarrow>
          (case Configure_steps X v doc (SetToken rootToken w1) of
             (r, w2) \<Rightarrow> (r, SetToken [] w2)))"

section \<open>In-memory capabilities for running the operations\<close>

text \<open>
  A key store in memory: the pairs it holds, and the keys whose lookup fails with an
  error that is not a not-found error. \<open>memSet\<close> replaces the value of a key.
\<close>

record memStore =
  entries :: "(string \<times> string) list"
  broken :: "string list"

definition memGet :: "string \<Rightarrow> memStore \<Rightarrow> (error + string) \<times> memStore" where
  "memGet key s =
     (if key \<in> set (broken s) then (Inl (Foreign False ''key store unavailable''), s)
      else case map_of (entries s) key of
             None \<Rightarrow> (Inl (Foreign True ''key not found''), s)
           | Some val \<Rightarrow> (Inr val, s))"

definition memSet :: "string \<Rightarrow> string \<Rightarrow> memStore \<Rightarrow> error option \<times> memStore" where
  "memSet key val s = (None, s\<lparr>entries := (key, val) # filter (\<lambda>kv. fst kv \<noteq> key) (entries s)\<rparr>)"

definition memKV :: "memStore KVService" where
  "memKV = \<lparr>KV_Set = memSet, KV_Get = memGet\<rparr>"

text \<open>
  A server in memory. It answers the seal-status and unseal calls from two scripts (an
  exhausted seal-status script answers unsealed, an exhausted unseal script answers with
  an error), hands out a fixed init response, and keeps tokens, plugins, auth mounts
  (path and accessor), groups (name and ID) and group aliases (ID and data). It is healthy,
  it is the leader, and it lets every node join.
\<close>

record fakeServer =
  fs_initialized :: bool
  fs_initResponse :: InitResponse
  fs_sealStatus :: "(error + SealStatusResponse) list"
  fs_unseal :: "(error + SealStatusResponse) list"
  fs_tokens :: "string list"
  fs_plugins :: "RegisterPluginInput list"
  fs_auth :: "(string \<times> string) list"
  fs_groups :: "(string \<times> string) list"
  fs_aliases :: "(string \<times> (string \<times> ival) list) list"

fun stripPrefix :: "string \<Rightarrow> string \<Rightarrow> string option" where
  "stripPrefix [] ys = Some ys"
| "stripPrefix (x # xs) [] = None"
| "stripPrefix (x # xs) (y # ys) = (if x = y then stripPrefix xs ys else None)"

definition fakeSealStatus :: "string \<Rightarrow> fakeServer \<Rightarrow> (error + SealStatusResponse) \<times> fakeServer" where
  "fakeSealStatus tok s =
     (case fs_sealStatus s of
        [] \<Rightarrow> (Inr \<lparr>resp_Sealed = False, resp_Progress = 0\<rparr>, s)
      | r # rs \<Rightarrow> (r, s\<lparr>fs_sealStatus := rs\<rparr>))"

definition fakeUnseal :: "string \<Rightarrow> string \<Rightarrow> fakeServer \<Rightarrow> (error + SealStatusResponse) \<times> fakeServer" where
  "fakeUnseal tok key s =
     (case fs_unseal s of
        [] \<Rightarrow> (Inl (Foreign False ''connection refused''), s)
      | r # rs \<Rightarrow> (r, s\<lparr>fs_unseal := rs\<rparr>))"

definition fakeCreateOrphan :: "string \<Rightarrow> TokenCreateRequest \<Rightarrow> fakeServer \<Rightarrow> error option \<times> fakeServer" where
  "fakeCreateOrphan tok req s =
     (case req of TokenCreateRequest ident policies displayName noParent \<Rightarrow>
        (None, s\<lparr>fs_tokens := ident # fs_tokens s\<rparr>))"

definition fakeRead :: "string \<Rightarrow> string \<Rightarrow> fakeServer \<Rightarrow> (error + Secret option) \<times> fakeServer" where
  "fakeRead tok path s =
     (case stripPrefix ''identity/group/name/'' path of
        Some name \<Rightarrow>
          (case map_of (fs_groups s) name of
             None \<Rightarrow> (Inr None, s)
           | Some ident \<Rightarrow> (Inr (Some \<lparr>Data = [(''id'', IStr ident)], Warnings = []\<rparr>), s))
      | None \<Rightarrow>
          (case stripPrefix ''identity/group-alias/id/'' path of
             Some ident \<Rightarrow>
               (case map_of (fs_aliases s) ident of
                  None \<Rightarrow> (Inr None, s)
                | Some d \<Rightarrow> (Inr (Some \<lparr>Data = d, Warnings = []\<rparr>), s))
           | None \<Rightarrow> (Inr None, s)))"

definition fakeList :: "string \<Rightarrow> string \<Rightarrow> fakeServer \<Rightarrow> (error + Secret option) \<times> fakeServer" where
  "fakeList tok path s =
     (if path = ''identity/group-alias/id'' \<and> fs_aliases s \<noteq> []
      then (Inr (Some \<lparr>Data = [(''keys'', ISlice (map (\<lambda>a. IStr (fst a)) (fs_aliases s)))], Warnings = []\<rparr>), s)
      else (Inr None, s))"

definition fakeWrite ::
  "string \<Rightarrow> string \<Rightarrow> (string \<times> ival) list \<Rightarrow> fakeServer \<Rightarrow> (error + Secret option) \<times> fakeServer" where
  "fakeWrite tok path data s =
     (if path = ''identity/group-alias''
      then (Inr None, s\<lparr>fs_aliases := fs_aliases s @ [(''alias-'' @ showNat (length (fs_aliases s)), data)]\<rparr>)
      else case stripPrefix ''identity/group-alias/id/'' path of
             Some ident \<Rightarrow>
               (Inr None, s\<lparr>fs_aliases := map (\<lambda>a. if fst a = ident then (ident, data) else a) (fs_aliases s)\<rparr>)
           | None \<Rightarrow> (Inr None, s))"

definition fakeClient :: "fakeServer Client" where
  "fakeClient =
     \<lparr>Sys_InitStatus = (\<lambda>tok s. (Inr (fs_initialized s), s)),
      Sys_Init = (\<lambda>tok req s. (Inr (fs_initResponse s), s\<lparr>fs_initialized := True\<rparr>)),
      Sys_SealStatus = fakeSealStatus,
      Sys_Unseal = fakeUnseal,
      Token_CreateOrphan = fakeCreateOrphan,
      Token_RevokeSelf = (\<lambda>tok t s. (None, s\<lparr>fs_tokens := removeAll t (fs_tokens s)\<rparr>)),
      Sys_ListPlugins = (\<lambda>tok s. (None, s)),
      Sys_RegisterPlugin = (\<lambda>tok inp s. (None, s\<lparr>fs_plugins := fs_plugins s @ [inp]\<rparr>)),
      Sys_ListAuth = (\<lambda>tok s. (Inr (map_of (fs_auth s)), s)),
      Logical_Read = fakeRead,
      Logical_List = fakeList,
      Logical_Write = fakeWrite,
      Sys_Leader = (\<lambda>tok s. (Inr \<lparr>resp_IsSelf = True, resp_LeaderAddress = ''https://vault-0:8200''\<rparr>, s)),
      Sys_RaftJoin = (\<lambda>tok req s. (Inr True, s)),
      Raw_Health = (\<lambda>tok s. (Inr 200, s))\<rparr>"

definition fakeServer0 :: fakeServer where
  "fakeServer0 =
     \<lparr>fs_initialized = False,
      fs_initResponse = \<lparr>Keys = [''share-a'', ''share-b''], RecoveryKeys = [], RootToken = ''generated''\<rparr>,
      fs_sealStatus = [], fs_unseal = [], fs_tokens = [], fs_plugins = [],
      fs_auth = [], fs_groups = [], fs_aliases = []\<rparr>"

definition fakeVault :: "Config \<Rightarrow> (memStore, fakeServer) vault" where
  "fakeVault cfg = \<lparr>keyStore = memKV, cl = fakeClient, config = cfg, rotateCache = []\<rparr>"

definition world0 :: "memStore \<Rightarrow> fakeServer \<Rightarrow> (memStore, fakeServer) world" where
  "world0 k s = \<lparr>kstore = k, server = s, token = [], trace = []\<rparr>"

text \<open>Inputs for the runs below.\<close>

definition emptyStore :: memStore where
  "emptyStore = \<lparr>entries = [], broken = []\<rparr>"

definition config0 :: Config where
  "config0 = \<lparr>SecretShares = 2, SecretThreshold = 2, InitRootToken = [],
              StoreRootToken = False, PreFlightChecks = False\<rparr>"

definition pluginEmptyCommand :: "string \<rightharpoonup> ival" where
  "pluginEmptyCommand = [''command'' \<mapsto> IStr [], ''plugin_name'' \<mapsto> IStr ''my-plugin'',
                         ''sha256'' \<mapsto> IStr ''abc123'', ''type'' \<mapsto> IStr ''secret'']"

section \<open>Properties of traces\<close>

text \<open>
  Set-if-absent, read off a trace: a \<open>KVSet\<close> event is allowed after the event \<open>prev\<close>
  when \<open>prev\<close> is the lookup of the same key that ended with a not-found error. The key
  of the pre-flight probe is exempt. \<open>setsGuarded prev evs\<close> says that every event of
  \<open>evs\<close> is allowed after the one before it, \<open>prev\<close> being the one before the first.
\<close>

definition allowedAfter :: "event option \<Rightarrow> event \<Rightarrow> bool" where
  "allowedAfter prev e =
     (case e of
        KVSet key val r \<Rightarrow>
          key = testKey \<or>
          (case prev of
             Some (KVGet key' (Inl err)) \<Rightarrow> key' = key \<and> isNotFoundError err
           | _ \<Rightarrow> False)
      | _ \<Rightarrow> True)"

fun setsGuarded :: "event option \<Rightarrow> event list \<Rightarrow> bool" where
  "setsGuarded prev [] = True"
| "setsGuarded prev (e # es) = (allowedAfter prev e \<and> setsGuarded (Some e) es)"

text \<open>The world \<open>w'\<close> has the trace of \<open>w\<close> and, after it, events with guarded sets only.\<close>

definition grows :: "('k, 's) world \<Rightarrow> ('k, 's) world \<Rightarrow> bool" where
  "grows w w' = (\<exists>evs. trace w' = trace w @ evs \<and> setsGuarded None evs)"

text \<open>
  Collaborators that do nothing and succeed, a document with one plugin, and a store that
  holds a root token.
\<close>

definition noSteps :: "(memStore, fakeServer) collaborators" where
  "noSteps =
     \<lparr>configureAuthMethods = (\<lambda>v doc w. (Ok (), w)),
      configurePolicies = (\<lambda>v doc w. (Ok (), w)),
      configureSecretsEngines = (\<lambda>v doc w. (Ok (), w)),
      configureAuditDevices = (\<lambda>v doc w. (Ok (), w)),
      configureStartupSecrets = (\<lambda>v doc w. (Ok (), w)),
      cast_ToStringSlice = (\<lambda>x. x),
      cast_ToStringMap = (\<lambda>x. x)\<rparr>"

definition doc0 :: document where
  "doc0 = \<lparr>doc_Unmarshal = None, doc_plugins = Inr [pluginEmptyCommand],
           doc_groups = Inr [], doc_group_aliases = Inr []\<rparr>"

definition rootStore :: memStore where
  "rootStore = \<lparr>entries = [(''vault-root'', ''root-token-1'')], broken = []\<rparr>"

text \<open>A step keeps the token when the world it returns holds the token of the world it got.\<close>

definition keepsToken :: "(('k, 's) world \<Rightarrow> 'r \<times> ('k, 's) world) \<Rightarrow> bool" where
  "keepsToken f = (\<forall>w. token (snd (f w)) = token w)"

section \<open>The rounds of unsealing, as the specification describes them\<close>

text \<open>
  \<open>unsealRun tok i evs res\<close>: the events \<open>evs\<close> are rounds of unsealing from the share
  index \<open>i\<close> on, made with the token \<open>tok\<close>, and they end with the result \<open>res\<close>. A round
  fetches the share of its index; a failed fetch ends the run with that error. The
  share is sent to the server; a failed request ends the run with that error, an answer
  that is not sealed ends it with success, a sealed answer with progress zero ends it
  with the bad-key error, and a sealed answer with any other progress is followed by
  the round of the next index.
\<close>

fun unsealRun :: "string \<Rightarrow> int \<Rightarrow> event list \<Rightarrow> error option \<Rightarrow> bool" where
  "unsealRun tok i [KVGet key (Inl err)] res =
     (key = unsealKeyForID i \<and>
      res = Some (Wrap err (''unable to get key '%s'' @ apostrophe) [IStr (unsealKeyForID i)]))"
| "unsealRun tok i (KVGet key (Inr k) # Api t (SysUnseal k' r) # evs) res =
     (key = unsealKeyForID i \<and> t = tok \<and> k' = k \<and>
      (case r of
         Inl err \<Rightarrow> evs = [] \<and> res = Some (Wrap err ''fail to send unseal request to vault'' [])
       | Inr resp \<Rightarrow>
           if \<not> resp_Sealed resp then evs = [] \<and> res = None
           else if resp_Progress resp = 0
           then evs = [] \<and>
                res = Some (Errorf ''failed to unseal vault, are you using the right unseal keys?'' [])
           else unsealRun tok (intSucc i) evs res))"
| "unsealRun tok i evs res = False"

text \<open>
  Inputs for runs of \<^verbatim>\<open>Unseal\<close>: a key store that holds three shares, a key store that
  answers every lookup with a share, and the answers \<open>stillSealed p\<close> (sealed, with
  progress \<open>p\<close>) and \<open>unsealed\<close> of the server.
\<close>

definition shareStore :: memStore where
  "shareStore = \<lparr>entries = [(''vault-unseal-0'', ''share-a''), (''vault-unseal-1'', ''share-b''),
                             (''vault-unseal-2'', ''share-c'')], broken = []\<rparr>"

definition everyShareKV :: "memStore KVService" where
  "everyShareKV = \<lparr>KV_Set = memSet, KV_Get = (\<lambda>key s. (Inr (''share for '' @ key), s))\<rparr>"

definition stillSealed :: "int \<Rightarrow> error + SealStatusResponse" where
  "stillSealed p = Inr \<lparr>resp_Sealed = True, resp_Progress = p\<rparr>"

definition unsealed :: "error + SealStatusResponse" where
  "unsealed = Inr \<lparr>resp_Sealed = False, resp_Progress = 0\<rparr>"

text \<open>
  Inputs for runs of the group-alias loop: a server with the auth mounts \<^verbatim>\<open>a/\<close> and \<^verbatim>\<open>b/\<close>
  and two groups, the same server once the alias \<^verbatim>\<open>svc\<close> exists on both mounts, and the
  two desired aliases named \<^verbatim>\<open>svc\<close>, one on each mount. \<open>writesOf\<close> keeps the logical writes
  of a trace.
\<close>

definition aliasServer0 :: fakeServer where
  "aliasServer0 = fakeServer0\<lparr>fs_auth := [(''a/'', ''acc_a''), (''b/'', ''acc_b'')],
                               fs_groups := [(''team-a'', ''group-1''), (''team-b'', ''group-2'')]\<rparr>"

definition aliasServer2 :: fakeServer where
  "aliasServer2 = aliasServer0\<lparr>fs_aliases :=
     [(''alias-0'', [(''name'', IStr ''svc''), (''mount_accessor'', IStr ''acc_a''), (''canonical_id'', IStr ''group-1'')]),
      (''alias-1'', [(''name'', IStr ''svc''), (''mount_accessor'', IStr ''acc_b''), (''canonical_id'', IStr ''group-2'')])]\<rparr>"

definition svcOnA :: "string \<rightharpoonup> ival" where
  "svcOnA = [''name'' \<mapsto> IStr ''svc'', ''mountpath'' \<mapsto> IStr ''a'', ''group'' \<mapsto> IStr ''team-a'']"

definition svcOnB :: "string \<rightharpoonup> ival" where
  "svcOnB = [''name'' \<mapsto> IStr ''svc'', ''mountpath'' \<mapsto> IStr ''b/'', ''group'' \<mapsto> IStr ''team-b'']"

fun writesOf :: "event list \<Rightarrow> (string \<times> (string \<times> ival) list) list" where
  "writesOf [] = []"
| "writesOf (Api t (LogicalWrite path data) # es) = (path, data) # writesOf es"
| "writesOf (e # es) = writesOf es"

section \<open>A server that answers reads from a fixed state\<close>

text \<open>
  What the group-alias loop reads, for a token \<open>tok\<close> and a server state \<open>s\<close> that reading
  leaves as it is: the auth mount at \<open>path\<close> has the accessor \<open>accessor\<close>; the group
  \<open>groupName\<close> has the ID \<open>ident\<close>; the alias \<open>ident\<close> has the name \<open>nm\<close> on the mount with
  accessor \<open>mt\<close>; and the aliases that exist are \<open>als\<close>, each an ID with its name and mount
  accessor, listed in that order (a server without aliases may answer the listing with
  \<^verbatim>\<open>nil\<close>).
\<close>

definition mountAt :: "'s Client \<Rightarrow> string \<Rightarrow> 's \<Rightarrow> string \<Rightarrow> string \<Rightarrow> bool" where
  "mountAt c tok s path accessor =
     (case Sys_ListAuth c tok s of
        (Inr mounts, s') \<Rightarrow> s' = s \<and> mounts path = Some accessor
      | (Inl err, s') \<Rightarrow> False)"

definition groupAt :: "'s Client \<Rightarrow> string \<Rightarrow> 's \<Rightarrow> string \<Rightarrow> string \<Rightarrow> bool" where
  "groupAt c tok s groupName ident =
     (case Logical_Read c tok (''identity/group/name/'' @ groupName) s of
        (Inr (Some sec), s') \<Rightarrow> s' = s \<and> map_of (Data sec) ''id'' = Some (IStr ident)
      | (Inr None, s') \<Rightarrow> False
      | (Inl err, s') \<Rightarrow> False)"

definition aliasAt :: "'s Client \<Rightarrow> string \<Rightarrow> 's \<Rightarrow> string \<times> string \<times> string \<Rightarrow> bool" where
  "aliasAt c tok s a =
     (case Logical_Read c tok (''identity/group-alias/id/'' @ fst a) s of
        (Inr (Some sec), s') \<Rightarrow>
          s' = s \<and> map_of (Data sec) ''name'' = Some (IStr (fst (snd a))) \<and>
          map_of (Data sec) ''mount_accessor'' = Some (IStr (snd (snd a)))
      | (Inr None, s') \<Rightarrow> False
      | (Inl err, s') \<Rightarrow> False)"

definition listedAliases :: "'s Client \<Rightarrow> string \<Rightarrow> 's \<Rightarrow> (string \<times> string \<times> string) list \<Rightarrow> bool" where
  "listedAliases c tok s als =
     ((case Logical_List c tok ''identity/group-alias/id'' s of
         (Inr (Some sec), s') \<Rightarrow> s' = s \<and> map_of (Data sec) ''keys'' = Some (ISlice (map (\<lambda>a. IStr (fst a)) als))
       | (Inr None, s') \<Rightarrow> s' = s \<and> als = []
       | (Inl err, s') \<Rightarrow> False) \<and>
      list_all (aliasAt c tok s) als)"

text \<open>
  The alias that a desired alias is matched with, in the words of the specification:
  the ID of the first alias whose name and mount accessor are both the desired ones, and
  the empty string when there is none.
\<close>

definition matchingAlias :: "string \<Rightarrow> string \<Rightarrow> (string \<times> string \<times> string) list \<Rightarrow> string" where
  "matchingAlias name accessor als =
     (case find (\<lambda>a. fst (snd a) = name \<and> snd (snd a) = accessor) als of
        None \<Rightarrow> []
      | Some a \<Rightarrow> fst a)"

text \<open>
  The world \<open>w'\<close> comes from \<open>w\<close> by reads only: the server, the token and the key store are
  the same, and the trace has no new write.
\<close>

definition onlyReads :: "('k, 's) world \<Rightarrow> ('k, 's) world \<Rightarrow> bool" where
  "onlyReads w w' = (server w' = server w \<and> token w' = token w \<and> kstore w' = kstore w \<and>
                     writesOf (trace w') = writesOf (trace w))"

text \<open>The payload of lines 888-892 and the path that lines 900-912 write it to, given the match \<open>ga\<close>.\<close>

definition aliasConfig :: "string \<Rightarrow> string \<Rightarrow> string \<Rightarrow> (string \<times> ival) list" where
  "aliasConfig name accessor ident =
     [(''name'', IStr name), (''mount_accessor'', IStr accessor), (''canonical_id'', IStr ident)]"

definition aliasTarget :: "string \<Rightarrow> string" where
  "aliasTarget ga = (if ga = [] then ''identity/group-alias'' else ''identity/group-alias/id/'' @ ga)"





declare waitUnsealed.simps [code]
declare Unseal_loop.simps [code]

section \<open>Construction: shares and threshold\<close>

text \<open>
  The check of \<^verbatim>\<open>New\<close> compares the shares with the threshold and nothing else: a
  threshold of zero with two shares is below one, and the handle is built.
\<close>

theorem New_accepts_threshold_zero:
  "\<not> (1 \<le> SecretThreshold (config0\<lparr>SecretThreshold := 0\<rparr>)) \<and>
   New memKV fakeClient (config0\<lparr>SecretThreshold := 0\<rparr>) = Inr (fakeVault (config0\<lparr>SecretThreshold := 0\<rparr>))"
  by (simp add: New_def fakeVault_def config0_def)

text \<open>
  C5, as the code has it. \<^verbatim>\<open>New\<close> succeeds exactly when the threshold is at most the
  number of shares, and then returns the handle holding the key store, the client and
  the configuration; it fails exactly when the shares are fewer than the threshold, with
  the error naming both numbers. No lower bound on the threshold is checked.
\<close>

theorem New_checks_shares_against_threshold:
  "((\<exists>v. New k c cfg = Inr v) \<longleftrightarrow> SecretThreshold cfg \<le> SecretShares cfg) \<and>
   ((\<exists>e. New k c cfg = Inl e) \<longleftrightarrow> SecretShares cfg < SecretThreshold cfg) \<and>
   (SecretThreshold cfg \<le> SecretShares cfg \<longrightarrow>
      New k c cfg = Inr \<lparr>keyStore = k, cl = c, config = cfg, rotateCache = []\<rparr>) \<and>
   (SecretShares cfg < SecretThreshold cfg \<longrightarrow>
      New k c cfg = Inl (Errorf ''the secret threshold can't be bigger than the shares [%d < %d]''
                          [IInt (SecretShares cfg), IInt (SecretThreshold cfg)]))"
  by (auto simp: New_def)

theorem New_checks_shares_against_threshold_witness:
  "SecretThreshold config0 \<le> SecretShares config0 \<and>
   New memKV fakeClient config0 = Inr (fakeVault config0) \<and>
   SecretShares (config0\<lparr>SecretThreshold := 3\<rparr>) < SecretThreshold (config0\<lparr>SecretThreshold := 3\<rparr>) \<and>
   New memKV fakeClient (config0\<lparr>SecretThreshold := 3\<rparr>) =
     Inl (Errorf ''the secret threshold can't be bigger than the shares [%d < %d]'' [IInt 2, IInt 3])"
  using New_checks_shares_against_threshold [of memKV fakeClient config0]
        New_checks_shares_against_threshold [of memKV fakeClient "config0\<lparr>SecretThreshold := 3\<rparr>"]
  by (simp add: config0_def fakeVault_def)

section \<open>Init on an initialised server\<close>

text \<open>
  C6. When the init-status call answers that the server is initialised, \<^verbatim>\<open>Init\<close> returns
  \<^verbatim>\<open>nil\<close>. The world it leaves differs from the one it found in the server state, as the
  status call left it, and in one new event of the trace, the status call: the key
  store is not called (no read, no write; its state is the same) and neither is the
  remote init. This holds for every call of \<^verbatim>\<open>Init\<close>, so for a second one too.
\<close>

theorem Init_already_initialized:
  assumes "Sys_InitStatus (cl v) (token w) (server w) = (Inr True, s')"
  shows "Init v w = Some (None, w\<lparr>server := s', trace := trace w @ [Api (token w) InitStatus]\<rparr>)"
  using assms by (simp add: Init_def sysInitStatus_def)

theorem Init_already_initialized_witness:
  "Sys_InitStatus (cl (fakeVault config0)) (token (world0 emptyStore (fakeServer0\<lparr>fs_initialized := True\<rparr>)))
     (server (world0 emptyStore (fakeServer0\<lparr>fs_initialized := True\<rparr>)))
     = (Inr True, fakeServer0\<lparr>fs_initialized := True\<rparr>) \<and>
   Init (fakeVault config0) (world0 emptyStore (fakeServer0\<lparr>fs_initialized := True\<rparr>)) =
     Some (None, \<lparr>kstore = emptyStore, server = fakeServer0\<lparr>fs_initialized := True\<rparr>, token = [],
                  trace = [Api [] InitStatus]\<rparr>)"
proof -
  have h: "Sys_InitStatus (cl (fakeVault config0)) (token (world0 emptyStore (fakeServer0\<lparr>fs_initialized := True\<rparr>)))
     (server (world0 emptyStore (fakeServer0\<lparr>fs_initialized := True\<rparr>)))
     = (Inr True, fakeServer0\<lparr>fs_initialized := True\<rparr>)"
    by (simp add: fakeVault_def fakeClient_def world0_def)
  show ?thesis
    using h Init_already_initialized [OF h] by (simp add: world0_def)
qed

section \<open>Init and the keys that exist already\<close>

text \<open>
  C1, on two runs with two shares against a server that is not initialised. When the key
  store holds a value under \<^verbatim>\<open>vault-root\<close>, \<^verbatim>\<open>Init\<close> returns the conflict error after that
  one lookup and calls nothing else. When the lookup of \<^verbatim>\<open>vault-root\<close> fails with an error
  that is not a not-found error, \<^verbatim>\<open>keyStoreNotFound\<close> returns \<^verbatim>\<open>(false, err)\<close>, neither
  condition of lines 284 and 286 holds, and \<^verbatim>\<open>Init\<close> goes on: it calls the remote init,
  stores the shares and returns \<^verbatim>\<open>nil\<close>.
\<close>

theorem Init_goes_on_after_store_error:
  "map_option fst (Init (fakeVault config0) (world0 (emptyStore\<lparr>entries := [(''vault-root'', ''t'')]\<rparr>) fakeServer0))
     = Some (Some (Errorf ''error before init: value for key '%s' already exists'' [IStr ''vault-root''])) \<and>
   map_option (trace \<circ> snd) (Init (fakeVault config0) (world0 (emptyStore\<lparr>entries := [(''vault-root'', ''t'')]\<rparr>) fakeServer0))
     = Some [Api [] InitStatus, KVGet ''vault-root'' (Inr ''t'')] \<and>
   map_option fst (Init (fakeVault config0) (world0 (emptyStore\<lparr>broken := [''vault-root'']\<rparr>) fakeServer0))
     = Some None \<and>
   map_option (trace \<circ> snd) (Init (fakeVault config0) (world0 (emptyStore\<lparr>broken := [''vault-root'']\<rparr>) fakeServer0))
     = Some [Api [] InitStatus,
         KVGet ''vault-root'' (Inl (Foreign False ''key store unavailable'')),
         KVGet ''vault-unseal-0'' (Inl (Foreign True ''key not found'')),
         KVGet ''vault-unseal-1'' (Inl (Foreign True ''key not found'')),
         KVGet ''vault-unseal-2'' (Inl (Foreign True ''key not found'')),
         Api [] (SysInit (InitRequest 2 2 2 2)),
         KVGet ''vault-unseal-0'' (Inl (Foreign True ''key not found'')),
         KVSet ''vault-unseal-0'' ''share-a'' None,
         KVGet ''vault-unseal-1'' (Inl (Foreign True ''key not found'')),
         KVSet ''vault-unseal-1'' ''share-b'' None]"
  by code_simp

section \<open>Init and the root token\<close>

text \<open>
  C3, on a run with the fixed root token \<^verbatim>\<open>fixed\<close> and \<^verbatim>\<open>StoreRootToken\<close> set, against a
  server whose init call generates the root token \<^verbatim>\<open>generated\<close>. \<^verbatim>\<open>Init\<close> returns \<^verbatim>\<open>nil\<close>;
  the server is left with the token \<^verbatim>\<open>fixed\<close> alone, the generated one being revoked;
  and the value stored under \<^verbatim>\<open>vault-root\<close> is \<^verbatim>\<open>generated\<close>: line 367 stores
  \<^verbatim>\<open>resp.RootToken\<close>, not the variable \<^verbatim>\<open>rootToken\<close> that line 362 sets to the fixed token.
\<close>

theorem Init_stores_revoked_generated_token:
  "map_option fst (Init (fakeVault (config0\<lparr>InitRootToken := ''fixed'', StoreRootToken := True\<rparr>))
                        (world0 emptyStore fakeServer0)) = Some None \<and>
   map_option (\<lambda>r. entries (kstore (snd r)))
     (Init (fakeVault (config0\<lparr>InitRootToken := ''fixed'', StoreRootToken := True\<rparr>))
           (world0 emptyStore fakeServer0))
     = Some [(''vault-root'', ''generated''), (''vault-unseal-1'', ''share-b''), (''vault-unseal-0'', ''share-a'')] \<and>
   map_option (\<lambda>r. fs_tokens (server (snd r)))
     (Init (fakeVault (config0\<lparr>InitRootToken := ''fixed'', StoreRootToken := True\<rparr>))
           (world0 emptyStore fakeServer0))
     = Some [''fixed'']"
  by code_simp

section \<open>Init and the wait for the unsealed server\<close>

text \<open>
  C4, on a run with a fixed root token against a server whose first seal-status call
  fails and whose second one would answer sealed. \<^verbatim>\<open>Sealed\<close> returns \<^verbatim>\<open>(false, err)\<close> on
  the failed call, line 330 reads \<^verbatim>\<open>sealed\<close> alone, and the loop ends there: after the ten
  events of the key checks and the storing of the shares, the trace holds the one failed
  status call, no sleep, and the creation of the fixed token next; the second answer of
  the server is never asked for.
\<close>

theorem Init_wait_ends_on_status_error:
  "map_option fst
     (Init (fakeVault (config0\<lparr>InitRootToken := ''fixed''\<rparr>))
        (world0 emptyStore (fakeServer0\<lparr>fs_sealStatus :=
           [Inl (Foreign False ''connection refused''), Inr \<lparr>resp_Sealed = True, resp_Progress = 0\<rparr>]\<rparr>)))
     = Some None \<and>
   map_option (\<lambda>r. drop 10 (trace (snd r)))
     (Init (fakeVault (config0\<lparr>InitRootToken := ''fixed''\<rparr>))
        (world0 emptyStore (fakeServer0\<lparr>fs_sealStatus :=
           [Inl (Foreign False ''connection refused''), Inr \<lparr>resp_Sealed = True, resp_Progress = 0\<rparr>]\<rparr>)))
     = Some [Api [] (SealStatus (Inl (Foreign False ''connection refused''))),
             Api ''generated'' (CreateOrphan (TokenCreateRequest ''fixed'' [''root''] ''root-token'' True)),
             Api ''generated'' (RevokeSelf ''generated'')] \<and>
   map_option (\<lambda>r. fs_sealStatus (server (snd r)))
     (Init (fakeVault (config0\<lparr>InitRootToken := ''fixed''\<rparr>))
        (world0 emptyStore (fakeServer0\<lparr>fs_sealStatus :=
           [Inl (Foreign False ''connection refused''), Inr \<lparr>resp_Sealed = True, resp_Progress = 0\<rparr>]\<rparr>)))
     = Some [Inr \<lparr>resp_Sealed = True, resp_Progress = 0\<rparr>]"
  by code_simp

section \<open>Writes to the key store\<close>























lemma grows_snd: "f w = (r, w1) \<Longrightarrow> grows w (snd (f w)) \<Longrightarrow> grows w w1"
  by simp


















































section \<open>Required fields of a plugin record\<close>

text \<open>
  C10. \<^verbatim>\<open>getOrError\<close> returns the error \<^verbatim>\<open>value for ... is not set\<close> exactly when the key is
  absent from the record or its value is \<^verbatim>\<open>nil\<close>; it returns any error at all exactly
  when, besides, the value is a slice or a map, which cannot be cast to a string. A
  string value is returned as it is, the empty string too. So a plugin record whose
  \<^verbatim>\<open>command\<close> is the empty string, with strings in the other three fields and a type
  that parses, reaches the register call, with an empty command.
\<close>

theorem getOrError_accepts_empty_string:
  "((getOrError m key = Inl (Errorf ''value for %s is not set'' [IStr key])) = (m key = None \<or> m key = Some INil)) \<and>
   ((\<exists>e. getOrError m key = Inl e) = (m key = None \<or> m key = Some INil \<or> (\<exists>xs. m key = Some (ISlice xs)) \<or> (\<exists>kvs. m key = Some (IMap kvs)))) \<and>
   getOrError (m(key \<mapsto> IStr s)) key = Inr s \<and>
   (plugin ''command'' = Some (IStr []) \<and> plugin ''plugin_name'' = Some (IStr n) \<and>
    plugin ''sha256'' = Some (IStr h) \<and> plugin ''type'' = Some (IStr t) \<and> ParsePluginType t = Inr pt \<longrightarrow>
    registerPlugins v (plugin # plugins) w =
      (case sysRegisterPlugin (cl v)
              \<lparr>plugin_Name = n, plugin_Type = pt, plugin_Command = [], plugin_SHA256 = h\<rparr> w of
         (Some err, w1) \<Rightarrow> (Some (Wrap err ''error registering plugin %s in vault'' [IStr n]), w1)
       | (None, w1) \<Rightarrow> registerPlugins v plugins w1))"
proof -
  have a: "(getOrError m key = Inl (Errorf ''value for %s is not set'' [IStr key])) = (m key = None \<or> m key = Some INil)"
    by (auto simp: getOrError_def mapIndex_def cast_ToStringE_def split: option.splits ival.splits)
  have b: "(\<exists>e. getOrError m key = Inl e) = (m key = None \<or> m key = Some INil \<or> (\<exists>xs. m key = Some (ISlice xs)) \<or> (\<exists>kvs. m key = Some (IMap kvs)))"
    by (auto simp: getOrError_def mapIndex_def cast_ToStringE_def split: option.splits ival.splits)
  have c: "getOrError (m(key \<mapsto> IStr s)) key = Inr s"
    by (simp add: getOrError_def mapIndex_def cast_ToStringE_def)
  have g: "\<And>k x. plugin k = Some (IStr x) \<Longrightarrow> getOrError plugin k = Inr x"
    by (simp add: getOrError_def mapIndex_def cast_ToStringE_def)
  have d: "plugin ''command'' = Some (IStr []) \<and> plugin ''plugin_name'' = Some (IStr n) \<and>
    plugin ''sha256'' = Some (IStr h) \<and> plugin ''type'' = Some (IStr t) \<and> ParsePluginType t = Inr pt \<longrightarrow>
    registerPlugins v (plugin # plugins) w =
      (case sysRegisterPlugin (cl v)
              \<lparr>plugin_Name = n, plugin_Type = pt, plugin_Command = [], plugin_SHA256 = h\<rparr> w of
         (Some err, w1) \<Rightarrow> (Some (Wrap err ''error registering plugin %s in vault'' [IStr n]), w1)
       | (None, w1) \<Rightarrow> registerPlugins v plugins w1)"
    by (simp add: g)
  from a b c d show ?thesis by blast
qed

theorem getOrError_accepts_empty_string_witness:
  "pluginEmptyCommand ''command'' = Some (IStr []) \<and> pluginEmptyCommand ''plugin_name'' = Some (IStr ''my-plugin'') \<and>
   pluginEmptyCommand ''sha256'' = Some (IStr ''abc123'') \<and> pluginEmptyCommand ''type'' = Some (IStr ''secret'') \<and>
   ParsePluginType ''secret'' = Inr PluginTypeSecrets \<and>
   getOrError pluginEmptyCommand ''command'' = Inr [] \<and>
   registerPlugins (fakeVault config0) [pluginEmptyCommand] (world0 emptyStore fakeServer0) =
     (None, \<lparr>kstore = emptyStore,
             server = fakeServer0\<lparr>fs_plugins := [\<lparr>plugin_Name = ''my-plugin'', plugin_Type = PluginTypeSecrets,
                                                   plugin_Command = [], plugin_SHA256 = ''abc123''\<rparr>]\<rparr>,
             token = [],
             trace = [Api [] (RegisterPlugin \<lparr>plugin_Name = ''my-plugin'', plugin_Type = PluginTypeSecrets,
                                            plugin_Command = [], plugin_SHA256 = ''abc123''\<rparr>)]\<rparr>)"
proof -
  have h: "pluginEmptyCommand ''command'' = Some (IStr []) \<and> pluginEmptyCommand ''plugin_name'' = Some (IStr ''my-plugin'') \<and>
   pluginEmptyCommand ''sha256'' = Some (IStr ''abc123'') \<and> pluginEmptyCommand ''type'' = Some (IStr ''secret'') \<and>
   ParsePluginType ''secret'' = Inr PluginTypeSecrets"
    by (simp add: pluginEmptyCommand_def ParsePluginType_def)
  have e: "getOrError pluginEmptyCommand ''command'' = Inr []"
    by (simp add: getOrError_def mapIndex_def cast_ToStringE_def pluginEmptyCommand_def)
  from getOrError_accepts_empty_string
         [of "pluginEmptyCommand" "''command''" "[]" pluginEmptyCommand "''my-plugin''" "''abc123''" "''secret''"
             PluginTypeSecrets "fakeVault config0" "[]" "world0 emptyStore fakeServer0"] h
  have "registerPlugins (fakeVault config0) [pluginEmptyCommand] (world0 emptyStore fakeServer0) =
      (case sysRegisterPlugin (cl (fakeVault config0))
              \<lparr>plugin_Name = ''my-plugin'', plugin_Type = PluginTypeSecrets, plugin_Command = [], plugin_SHA256 = ''abc123''\<rparr>
              (world0 emptyStore fakeServer0) of
         (Some err, w1) \<Rightarrow> (Some (Wrap err ''error registering plugin %s in vault'' [IStr ''my-plugin'']), w1)
       | (None, w1) \<Rightarrow> registerPlugins (fakeVault config0) [] w1)"
    by blast
  then show ?thesis using h e
    by (simp add: sysRegisterPlugin_def fakeVault_def fakeClient_def world0_def fakeServer0_def)
qed

section \<open>Configure and the token of the client\<close>

text \<open>
  The calls of the API and the steps of \<^verbatim>\<open>Configure\<close> that are defined in this file leave
  the token of the client as it is.
\<close>

lemma token_api:
  "token (snd (sysListPlugins c w)) = token w"
  "token (snd (sysRegisterPlugin c inp w)) = token w"
  "token (snd (sysListAuth c w)) = token w"
  "token (snd (logicalRead c path w)) = token w"
  "token (snd (logicalList c path w)) = token w"
  "token (snd (logicalWrite c path data w)) = token w"
  by (simp_all add: sysListPlugins_def sysRegisterPlugin_def sysListAuth_def logicalRead_def
        logicalList_def logicalWrite_def split: prod.splits)

lemma token_registerPlugins: "token (snd (registerPlugins v plugins w)) = token w"
proof (induction plugins arbitrary: w)
  case Nil
  then show ?case by simp
next
  case (Cons plugin plugins)
  have r: "token (snd (case sysRegisterPlugin (cl v) inp w of
          (Some err, w1) \<Rightarrow> (f err, w1)
        | (None, w1) \<Rightarrow> registerPlugins v plugins w1)) = token w" for inp f
  proof -
    obtain e w1 where s: "sysRegisterPlugin (cl v) inp w = (e, w1)" by (metis prod.exhaust)
    have "token w1 = token w" using token_api(2) [of "cl v" inp w] s by (metis snd_conv)
    with s Cons.IH [of w1] show ?thesis
      by (cases e) simp_all
  qed
  show ?case
    by (auto split: sum.splits simp: r)
qed

lemma token_configurePlugins: "token (snd (configurePlugins v doc w)) = token w"
proof -
  obtain e w1 where s: "sysListPlugins (cl v) w = (e, w1)" by (metis prod.exhaust)
  have "token w1 = token w" using token_api(1) [of "cl v" w] s by (metis snd_conv)
  with s show ?thesis
    by (auto simp: configurePlugins_def token_registerPlugins split: sum.splits option.splits)
qed

lemma token_writeWithWarningCheck: "token (snd (writeWithWarningCheck v path data w)) = token w"
proof -
  obtain e w1 where s: "logicalWrite (cl v) path data w = (e, w1)" by (metis prod.exhaust)
  have "token w1 = token w" using token_api(6) [of "cl v" path data w] s by (metis snd_conv)
  with s show ?thesis by (auto simp: writeWithWarningCheck_def split: sum.splits)
qed

lemma token_readVaultGroup: "token (snd (readVaultGroup g c w)) = token w"
proof -
  obtain e w1 where s: "logicalRead c (''identity/group/name/'' @ g) w = (e, w1)" by (metis prod.exhaust)
  have "token w1 = token w" using token_api(4) [of c "''identity/group/name/'' @ g" w] s by (metis snd_conv)
  with s show ?thesis by (auto simp: readVaultGroup_def split: sum.splits option.splits)
qed

lemma token_readVaultGroupAlias: "token (snd (readVaultGroupAlias g c w)) = token w"
proof -
  obtain e w1 where s: "logicalRead c (''identity/group-alias/id/'' @ g) w = (e, w1)" by (metis prod.exhaust)
  have "token w1 = token w" using token_api(4) [of c "''identity/group-alias/id/'' @ g" w] s by (metis snd_conv)
  with s show ?thesis by (auto simp: readVaultGroupAlias_def split: sum.splits option.splits)
qed

lemma token_getVaultAuthMountAccessor: "token (snd (getVaultAuthMountAccessor p c w)) = token w"
proof -
  obtain e w1 where s: "sysListAuth c w = (e, w1)" by (metis prod.exhaust)
  have "token w1 = token w" using token_api(3) [of c w] s by (metis snd_conv)
  with s show ?thesis by (auto simp: getVaultAuthMountAccessor_def Let_def split: sum.splits option.splits)
qed

lemma token_getVaultGroupID: "token (snd (getVaultGroupID g c w)) = token w"
proof -
  obtain e w1 where s: "readVaultGroup g c w = (e, w1)" by (metis prod.exhaust)
  have "token w1 = token w" using token_readVaultGroup [of g c w] s by (metis snd_conv)
  with s show ?thesis by (auto simp: getVaultGroupID_def split: sum.splits option.splits)
qed

lemma token_getVaultGroupAliasName: "token (snd (getVaultGroupAliasName g c w)) = token w"
proof -
  obtain e w1 where s: "readVaultGroupAlias g c w = (e, w1)" by (metis prod.exhaust)
  have "token w1 = token w" using token_readVaultGroupAlias [of g c w] s by (metis snd_conv)
  with s show ?thesis by (auto simp: getVaultGroupAliasName_def split: sum.splits option.splits)
qed

lemma token_getVaultGroupAliasMount: "token (snd (getVaultGroupAliasMount g c w)) = token w"
proof -
  obtain e w1 where s: "readVaultGroupAlias g c w = (e, w1)" by (metis prod.exhaust)
  have "token w1 = token w" using token_readVaultGroupAlias [of g c w] s by (metis snd_conv)
  with s show ?thesis by (auto simp: getVaultGroupAliasMount_def split: sum.splits option.splits)
qed

lemma token_findAliasLoop: "token (snd (findAliasLoop name accessor c keys w)) = token w"
proof (induction keys arbitrary: w)
  case Nil
  then show ?case by simp
next
  case (Cons al rest)
  obtain r1 w1 where s1: "getVaultGroupAliasName (cast_ToString al) c w = (r1, w1)" by (metis prod.exhaust)
  have t1: "token w1 = token w" using token_getVaultGroupAliasName [of "cast_ToString al" c w] s1 by (metis snd_conv)
  obtain r2 w2 where s2: "getVaultGroupAliasMount (cast_ToString al) c w1 = (r2, w2)" by (metis prod.exhaust)
  have t2: "token w2 = token w" using token_getVaultGroupAliasMount [of "cast_ToString al" c w1] s2 t1 by (metis snd_conv)
  from s1 s2 t1 t2 Cons.IH [of w2] show ?case
    by (auto split: result.splits)
qed

lemma token_find: "token (snd (findVaultGroupAliasIDFromNameAndMount name accessor c w)) = token w"
proof -
  obtain e w1 where s: "logicalList c ''identity/group-alias/id'' w = (e, w1)" by (metis prod.exhaust)
  have "token w1 = token w" using token_api(5) [of c "''identity/group-alias/id''" w] s by (metis snd_conv)
  with s show ?thesis
    by (auto simp: findVaultGroupAliasIDFromNameAndMount_def token_findAliasLoop
             split: sum.splits option.splits ival.splits)
qed

lemma token_configureGroups: "token (snd (configureGroups X v groups w)) = token w"
proof (induction groups arbitrary: w)
  case Nil
  then show ?case by simp
next
  case (Cons grp groups)
  obtain r1 w1 where s1: "readVaultGroup (cast_ToString (mapIndex grp ''name'')) (cl v) w = (r1, w1)"
    by (metis prod.exhaust)
  have t1: "token w1 = token w"
    using token_readVaultGroup [of "cast_ToString (mapIndex grp ''name'')" "cl v" w] s1 by (metis snd_conv)
  have wr: "token (snd (case writeWithWarningCheck v path data w1 of
                (Inl err, w2) \<Rightarrow> (f err, w2)
              | (Inr sec, w2) \<Rightarrow> configureGroups X v groups w2)) = token w" for path data f
  proof -
    obtain r2 w2 where s2: "writeWithWarningCheck v path data w1 = (r2, w2)" by (metis prod.exhaust)
    have "token w2 = token w" using token_writeWithWarningCheck [of v path data w1] s2 t1 by (metis snd_conv)
    with s2 Cons.IH [of w2] show ?thesis by (cases r2) simp_all
  qed
  from s1 t1 show ?case
    by (auto simp: Let_def wr split: sum.splits option.splits)
qed

lemma token_configureGroupAliases: "token (snd (configureGroupAliases v aliases w)) = token w"
proof (induction aliases arbitrary: w)
  case Nil
  then show ?case by simp
next
  case (Cons groupAlias groupAliases)
  obtain r1 w1 where s1: "getVaultAuthMountAccessor (cast_ToString (mapIndex groupAlias ''mountpath'')) (cl v) w = (r1, w1)"
    by (metis prod.exhaust)
  have t1: "token w1 = token w"
    using token_getVaultAuthMountAccessor [of "cast_ToString (mapIndex groupAlias ''mountpath'')" "cl v" w] s1 by (metis snd_conv)
  obtain r2 w2 where s2: "getVaultGroupID (cast_ToString (mapIndex groupAlias ''group'')) (cl v) w1 = (r2, w2)"
    by (metis prod.exhaust)
  have t2: "token w2 = token w"
    using token_getVaultGroupID [of "cast_ToString (mapIndex groupAlias ''group'')" "cl v" w1] s2 t1 by (metis snd_conv)
  have fd: "token (snd (findVaultGroupAliasIDFromNameAndMount n a (cl v) w2)) = token w" for n a
    using token_find [of n a "cl v" w2] t2 by simp
  have wr: "token (snd (case writeWithWarningCheck v path data w3 of
                (Inl err, w4) \<Rightarrow> (f err, w4)
              | (Inr sec, w4) \<Rightarrow> configureGroupAliases v groupAliases w4)) = token w3" for path data f w3
  proof -
    obtain r4 w4 where s4: "writeWithWarningCheck v path data w3 = (r4, w4)" by (metis prod.exhaust)
    have "token w4 = token w3" using token_writeWithWarningCheck [of v path data w3] s4 by (metis snd_conv)
    with s4 Cons.IH [of w4] show ?thesis by (cases r4) simp_all
  qed
  show ?case
  proof (cases r1)
    case (Inl e)
    with s1 t1 show ?thesis by simp
  next
    case (Inr accessor)
    show ?thesis
    proof (cases r2)
      case (Ok ident)
      obtain r3 w3 where s3: "findVaultGroupAliasIDFromNameAndMount (cast_ToString (mapIndex groupAlias ''name''))
                accessor (cl v) w2 = (r3, w3)" by (metis prod.exhaust)
      have t3: "token w3 = token w" using fd [of "cast_ToString (mapIndex groupAlias ''name'')" accessor] s3 by (metis snd_conv)
      from s1 s2 s3 Inr Ok t3 show ?thesis
        by (cases r3) (simp_all add: Let_def wr)
    next
      case (Err e)
      with s1 s2 Inr t2 show ?thesis by simp
    next
      case (Panic p)
      with s1 s2 Inr t2 show ?thesis by simp
    qed
  qed
qed

lemma token_configureIdentityGroups: "token (snd (configureIdentityGroups X v doc w)) = token w"
proof -
  have "token (snd (case configureGroups X v groups w of
                  (Some err, w1) \<Rightarrow> (Err err, w1)
                | (None, w1) \<Rightarrow> configureGroupAliases v groupAliases w1)) = token w" for groups groupAliases
  proof -
    obtain r1 w1 where s1: "configureGroups X v groups w = (r1, w1)" by (metis prod.exhaust)
    have "token w1 = token w" using token_configureGroups [of X v groups w] s1 by (metis snd_conv)
    with s1 token_configureGroupAliases [of v groupAliases w1] show ?thesis by (cases r1) simp_all
  qed
  then show ?thesis
    by (auto simp: configureIdentityGroups_def split: sum.splits)
qed

lemma token_stepThen:
  assumes "\<And>w. token (snd (f w)) = token w" and "\<And>w. token (snd (k w)) = token w"
  shows "token (snd (stepThen f msg k w)) = token w"
proof -
  obtain r w1 where s: "f w = (r, w1)" by (metis prod.exhaust)
  have "token w1 = token w" using assms(1) [of w] s by (metis snd_conv)
  with s assms(2) [of w1] show ?thesis by (cases r) (simp_all add: stepThen_def)
qed

lemma token_fromError: "token (snd (fromError (r, w))) = token w"
  by (cases r) (simp_all add: fromError_def)

lemma token_fromError_configurePlugins: "token (snd (fromError (configurePlugins v doc w))) = token w"
proof -
  obtain r w1 where s: "configurePlugins v doc w = (r, w1)" by (metis prod.exhaust)
  have "token w1 = token w" using token_configurePlugins [of v doc w] s by (metis snd_conv)
  with s show ?thesis by (simp add: token_fromError)
qed

lemma token_Configure_steps:
  assumes "\<And>w. token (snd (configureAuthMethods X v doc w)) = token w"
    and "\<And>w. token (snd (configurePolicies X v doc w)) = token w"
    and "\<And>w. token (snd (configureSecretsEngines X v doc w)) = token w"
    and "\<And>w. token (snd (configureAuditDevices X v doc w)) = token w"
    and "\<And>w. token (snd (configureStartupSecrets X v doc w)) = token w"
  shows "token (snd (Configure_steps X v doc w)) = token w"
  unfolding Configure_steps_def
  by (intro token_stepThen assms token_configureIdentityGroups token_fromError
        token_fromError_configurePlugins) simp

text \<open>
  C8. When the lookup of the root-token key fails, \<^verbatim>\<open>Configure\<close> returns that error,
  wrapped; the world is the one it found but for the state of the key store after the
  lookup and the lookup in the trace, so no step has run and nothing was sent to the
  server. When the lookup returns the root token, the steps run from a world whose
  token is the root token, \<^verbatim>\<open>Configure\<close> returns what the steps return (\<^verbatim>\<open>nil\<close>, an error or
  a panic), and the token of the world it leaves is the empty string in every case. If
  the five steps that are parameters here keep the token, the token is still the root
  token when the last step has run.
\<close>

theorem Configure_scopes_root_token:
  "(KV_Get (keyStore v) rootTokenKey (kstore w) = (Inl err, k1) \<longrightarrow>
      Configure X v doc w =
        (Err (Wrap err (''unable to get key '%s'' @ apostrophe) [IStr rootTokenKey]),
         w\<lparr>kstore := k1, trace := trace w @ [KVGet rootTokenKey (Inl err)]\<rparr>)) \<and>
   (KV_Get (keyStore v) rootTokenKey (kstore w) = (Inr rootToken, k1) \<longrightarrow>
      (let w1 = w\<lparr>kstore := k1, trace := trace w @ [KVGet rootTokenKey (Inr rootToken)], token := rootToken\<rparr>
       in Configure X v doc w =
            (fst (Configure_steps X v doc w1), (snd (Configure_steps X v doc w1))\<lparr>token := []\<rparr>) \<and>
          token (snd (Configure X v doc w)) = [] \<and>
          (keepsToken (configureAuthMethods X v doc) \<and> keepsToken (configurePolicies X v doc) \<and>
           keepsToken (configureSecretsEngines X v doc) \<and> keepsToken (configureAuditDevices X v doc) \<and>
           keepsToken (configureStartupSecrets X v doc) \<longrightarrow>
           token (snd (Configure_steps X v doc w1)) = rootToken)))"
proof -
  have a: "KV_Get (keyStore v) rootTokenKey (kstore w) = (Inl err, k1) \<longrightarrow>
      Configure X v doc w =
        (Err (Wrap err (''unable to get key '%s'' @ apostrophe) [IStr rootTokenKey]),
         w\<lparr>kstore := k1, trace := trace w @ [KVGet rootTokenKey (Inl err)]\<rparr>)"
    by (simp add: Configure_def svcGet_def)
  have b: "KV_Get (keyStore v) rootTokenKey (kstore w) = (Inr rootToken, k1) \<longrightarrow>
      Configure X v doc w =
            (fst (Configure_steps X v doc (w\<lparr>kstore := k1, trace := trace w @ [KVGet rootTokenKey (Inr rootToken)], token := rootToken\<rparr>)),
             (snd (Configure_steps X v doc (w\<lparr>kstore := k1, trace := trace w @ [KVGet rootTokenKey (Inr rootToken)], token := rootToken\<rparr>)))\<lparr>token := []\<rparr>)"
    by (auto simp: Configure_def svcGet_def SetToken_def split: prod.splits)
  have c: "KV_Get (keyStore v) rootTokenKey (kstore w) = (Inr rootToken, k1) \<longrightarrow>
      token (snd (Configure X v doc w)) = []"
    using b by simp
  have d: "keepsToken (configureAuthMethods X v doc) \<and> keepsToken (configurePolicies X v doc) \<and>
           keepsToken (configureSecretsEngines X v doc) \<and> keepsToken (configureAuditDevices X v doc) \<and>
           keepsToken (configureStartupSecrets X v doc) \<longrightarrow>
           token (snd (Configure_steps X v doc (w\<lparr>kstore := k1, trace := trace w @ [KVGet rootTokenKey (Inr rootToken)], token := rootToken\<rparr>))) = rootToken"
    using token_Configure_steps [of X v doc "w\<lparr>kstore := k1, trace := trace w @ [KVGet rootTokenKey (Inr rootToken)], token := rootToken\<rparr>"]
    by (simp add: keepsToken_def)
  from a b c d show ?thesis by (simp add: Let_def)
qed

theorem Configure_scopes_root_token_witness:
  "KV_Get (keyStore (fakeVault config0)) rootTokenKey (kstore (world0 emptyStore fakeServer0))
     = (Inl (Foreign True ''key not found''), emptyStore) \<and>
   Configure noSteps (fakeVault config0) doc0 (world0 emptyStore fakeServer0) =
     (Err (Wrap (Foreign True ''key not found'') (''unable to get key '%s'' @ apostrophe) [IStr ''vault-root'']),
      \<lparr>kstore = emptyStore, server = fakeServer0, token = [],
       trace = [KVGet ''vault-root'' (Inl (Foreign True ''key not found''))]\<rparr>) \<and>
   KV_Get (keyStore (fakeVault config0)) rootTokenKey (kstore (world0 rootStore fakeServer0))
     = (Inr ''root-token-1'', rootStore) \<and>
   keepsToken (configureAuthMethods noSteps (fakeVault config0) doc0) \<and>
   keepsToken (configurePolicies noSteps (fakeVault config0) doc0) \<and>
   keepsToken (configureSecretsEngines noSteps (fakeVault config0) doc0) \<and>
   keepsToken (configureAuditDevices noSteps (fakeVault config0) doc0) \<and>
   keepsToken (configureStartupSecrets noSteps (fakeVault config0) doc0) \<and>
   token (snd (Configure_steps noSteps (fakeVault config0) doc0
                 ((world0 rootStore fakeServer0)\<lparr>trace := [KVGet ''vault-root'' (Inr ''root-token-1'')],
                                                 token := ''root-token-1''\<rparr>))) = ''root-token-1'' \<and>
   token (snd (Configure noSteps (fakeVault config0) doc0 (world0 rootStore fakeServer0))) = [] \<and>
   fst (Configure noSteps (fakeVault config0) doc0 (world0 rootStore fakeServer0)) = Ok () \<and>
   trace (snd (Configure noSteps (fakeVault config0) doc0 (world0 rootStore fakeServer0))) =
     [KVGet ''vault-root'' (Inr ''root-token-1''),
      Api ''root-token-1'' ListPlugins,
      Api ''root-token-1'' (RegisterPlugin \<lparr>plugin_Name = ''my-plugin'', plugin_Type = PluginTypeSecrets,
                                            plugin_Command = [], plugin_SHA256 = ''abc123''\<rparr>)]"
proof -
  let ?v = "fakeVault config0"
  have h1: "KV_Get (keyStore ?v) rootTokenKey (kstore (world0 emptyStore fakeServer0))
     = (Inl (Foreign True ''key not found''), emptyStore)"
    by (simp add: fakeVault_def memKV_def memGet_def world0_def emptyStore_def rootTokenKey_def)
  have h2: "KV_Get (keyStore ?v) rootTokenKey (kstore (world0 rootStore fakeServer0))
     = (Inr ''root-token-1'', rootStore)"
    by (simp add: fakeVault_def memKV_def memGet_def world0_def rootStore_def rootTokenKey_def)
  have k: "keepsToken (configureAuthMethods noSteps ?v doc0) \<and>
   keepsToken (configurePolicies noSteps ?v doc0) \<and>
   keepsToken (configureSecretsEngines noSteps ?v doc0) \<and>
   keepsToken (configureAuditDevices noSteps ?v doc0) \<and>
   keepsToken (configureStartupSecrets noSteps ?v doc0)"
    by (simp add: keepsToken_def noSteps_def)
  from Configure_scopes_root_token [of ?v "world0 emptyStore fakeServer0" "Foreign True ''key not found''" emptyStore
         noSteps doc0 "[]"] h1
  have c1: "Configure noSteps ?v doc0 (world0 emptyStore fakeServer0) =
     (Err (Wrap (Foreign True ''key not found'') (''unable to get key '%s'' @ apostrophe) [IStr ''vault-root'']),
      \<lparr>kstore = emptyStore, server = fakeServer0, token = [],
       trace = [KVGet ''vault-root'' (Inl (Foreign True ''key not found''))]\<rparr>)"
    by (simp add: world0_def rootTokenKey_def)
  from Configure_scopes_root_token [of ?v "world0 rootStore fakeServer0" "Foreign True ''key not found''" rootStore
         noSteps doc0 "''root-token-1''"] h2 k
  have c2: "token (snd (Configure noSteps ?v doc0 (world0 rootStore fakeServer0))) = [] \<and>
    token (snd (Configure_steps noSteps ?v doc0
                 ((world0 rootStore fakeServer0)\<lparr>trace := [KVGet ''vault-root'' (Inr ''root-token-1'')],
                                                 token := ''root-token-1''\<rparr>))) = ''root-token-1''"
    by (simp add: Let_def world0_def rootTokenKey_def)
  have e1: "fst (Configure noSteps ?v doc0 (world0 rootStore fakeServer0)) = Ok ()" by code_simp
  have e2: "trace (snd (Configure noSteps ?v doc0 (world0 rootStore fakeServer0))) =
     [KVGet ''vault-root'' (Inr ''root-token-1''),
      Api ''root-token-1'' ListPlugins,
      Api ''root-token-1'' (RegisterPlugin \<lparr>plugin_Name = ''my-plugin'', plugin_Type = PluginTypeSecrets,
                                            plugin_Command = [], plugin_SHA256 = ''abc123''\<rparr>)]" by code_simp
  from h1 h2 k c1 c2 e1 e2 show ?thesis by blast
qed

section \<open>The rounds of Unseal\<close>

text \<open>
  Whenever the loop of \<^verbatim>\<open>Unseal\<close> returns from the index \<open>i\<close>, it has left the token as it
  was and has extended the trace by rounds of unsealing from \<open>i\<close> on that end with the
  result it returns. On a key store that answers every lookup with a share and a server
  that answers \<open>n\<close> times sealed with progress one and then unsealed, the loop returns
  success after \<open>n + 1\<close> rounds, whatever \<open>n\<close> is.
\<close>

lemma Unseal_loop_run:
  assumes "Unseal_loop v i w = Some rw"
  shows "\<exists>evs. trace (snd rw) = trace w @ evs \<and> token (snd rw) = token w \<and> unsealRun (token w) i evs (fst rw)"
proof (rule Unseal_loop.raw_induct
         [where P = "\<lambda>v i w rw. \<exists>evs. trace (snd rw) = trace w @ evs \<and> token (snd rw) = token w \<and>
                                      unsealRun (token w) i evs (fst rw)", OF _ assms], goal_cases)
  case (1 f v i w rw)
  obtain g w1 where s1: "svcGet (keyStore v) (unsealKeyForID i) w = (g, w1)" by (metis prod.exhaust)
  then have t1: "trace w1 = trace w @ [KVGet (unsealKeyForID i) g]" and k1: "token w1 = token w"
    by (auto simp: svcGet_def split: prod.splits)
  show ?case
  proof (cases g)
    case (Inl err)
    with 1(2) s1 t1 k1 show ?thesis by auto
  next
    case (Inr k)
    obtain r w2 where s2: "sysUnseal (cl v) k w1 = (r, w2)" by (metis prod.exhaust)
    then have t2: "trace w2 = trace w @ [KVGet (unsealKeyForID i) (Inr k), Api (token w) (SysUnseal k r)]"
      and k2: "token w2 = token w"
      using t1 k1 Inr by (auto simp: sysUnseal_def split: prod.splits)
    show ?thesis
    proof (cases r)
      case (Inl err)
      with 1(2) s1 s2 \<open>g = Inr k\<close> t2 k2 show ?thesis by auto
    next
      case (Inr resp)
      show ?thesis
      proof (cases "resp_Sealed resp \<and> resp_Progress resp \<noteq> 0")
        case False
        with 1(2) s1 s2 \<open>g = Inr k\<close> Inr t2 k2 show ?thesis by (auto split: if_splits)
      next
        case True
        with 1(2) s1 s2 \<open>g = Inr k\<close> Inr have "f v (intSucc i) w2 = Some rw" by simp
        from 1(1) [OF this] obtain evs where
          e: "trace (snd rw) = trace w2 @ evs" "token (snd rw) = token w2" "unsealRun (token w2) (intSucc i) evs (fst rw)"
          by blast
        with t2 k2 True Inr show ?thesis by auto
      qed
    qed
  qed
qed


lemma Unseal_loop_any_number_of_rounds:
  assumes "fs_unseal (server w) = replicate n (stillSealed 1) @ [unsealed]"
  shows "\<exists>w'. Unseal_loop ((fakeVault config0)\<lparr>keyStore := everyShareKV\<rparr>) i w = Some (None, w') \<and>
              length (trace w') = length (trace w) + 2 * n + 2"
  using assms
proof (induction n arbitrary: i w)
  case 0
  then show ?case
    by (subst Unseal_loop.simps)
       (simp add: svcGet_def sysUnseal_def everyShareKV_def fakeVault_def fakeClient_def fakeUnseal_def
                  unsealed_def)
next
  case (Suc n)
  let ?w2 = "w\<lparr>trace := trace w @ [KVGet (unsealKeyForID i) (Inr (''share for '' @ unsealKeyForID i))],
               server := (server w)\<lparr>fs_unseal := replicate n (stillSealed 1) @ [unsealed]\<rparr>,
               trace := trace w @ [KVGet (unsealKeyForID i) (Inr (''share for '' @ unsealKeyForID i)),
                                   Api (token w) (SysUnseal (''share for '' @ unsealKeyForID i) (stillSealed 1))]\<rparr>"
  have step: "Unseal_loop ((fakeVault config0)\<lparr>keyStore := everyShareKV\<rparr>) i w =
              Unseal_loop ((fakeVault config0)\<lparr>keyStore := everyShareKV\<rparr>) (intSucc i) ?w2"
    using Suc.prems
    by (subst Unseal_loop.simps)
       (simp add: svcGet_def sysUnseal_def everyShareKV_def fakeVault_def fakeClient_def fakeUnseal_def
                  stillSealed_def)
  have "fs_unseal (server ?w2) = replicate n (stillSealed 1) @ [unsealed]" by simp
  from Suc.IH [OF this, of "intSucc i"] step show ?case by auto
qed

text \<open>
  C2. \<^verbatim>\<open>Unseal\<close> is the loop from the index 0. In the round of any index \<open>i\<close>: a failed
  fetch of the share \<open>i\<close> makes \<^verbatim>\<open>Unseal\<close> return that error, wrapped, without a request
  to the server; a failed unseal request makes it return that error; an answer that is
  not sealed makes it return \<^verbatim>\<open>nil\<close>; a sealed answer with progress zero makes it return
  the bad-key error, with no further round; and a sealed answer with positive progress
  makes it go on with the next index, which is \<open>i + 1\<close> for every index below the largest
  \<^verbatim>\<open>int\<close>. Whenever \<^verbatim>\<open>Unseal\<close> returns, the events it has added to the trace are such
  rounds for the indices 0, 1, 2 and so on, ending with the result returned. There is no
  bound on the number of rounds: for every \<open>n\<close> there is a run of \<open>n + 1\<close> rounds (two
  events each) that ends in success.
\<close>

theorem Unseal_rounds:
  "Unseal v w = Unseal_loop v 0 w \<and>
   (svcGet (keyStore v) (unsealKeyForID i) w = (Inl err, w1) \<longrightarrow>
      Unseal_loop v i w =
        Some (Some (Wrap err (''unable to get key '%s'' @ apostrophe) [IStr (unsealKeyForID i)]), w1)) \<and>
   (svcGet (keyStore v) (unsealKeyForID i) w = (Inr k, w1) \<and> sysUnseal (cl v) k w1 = (Inl err, w2) \<longrightarrow>
      Unseal_loop v i w = Some (Some (Wrap err ''fail to send unseal request to vault'' []), w2)) \<and>
   (svcGet (keyStore v) (unsealKeyForID i) w = (Inr k, w1) \<and> sysUnseal (cl v) k w1 = (Inr resp, w2) \<longrightarrow>
      (\<not> resp_Sealed resp \<longrightarrow> Unseal_loop v i w = Some (None, w2)) \<and>
      (resp_Sealed resp \<and> resp_Progress resp = 0 \<longrightarrow>
         Unseal_loop v i w =
           Some (Some (Errorf ''failed to unseal vault, are you using the right unseal keys?'' []), w2)) \<and>
      (resp_Sealed resp \<and> 0 < resp_Progress resp \<longrightarrow>
         Unseal_loop v i w = Unseal_loop v (intSucc i) w2)) \<and>
   (0 \<le> i \<and> i < maxInt \<longrightarrow> intSucc i = i + 1) \<and>
   (Unseal v w = Some (res, w') \<longrightarrow>
      token w' = token w \<and> take (length (trace w)) (trace w') = trace w \<and>
      unsealRun (token w) 0 (drop (length (trace w)) (trace w')) res) \<and>
   (\<forall>n. map_option (\<lambda>r. (fst r, length (trace (snd r))))
          (Unseal ((fakeVault config0)\<lparr>keyStore := everyShareKV\<rparr>)
                  (world0 emptyStore (fakeServer0\<lparr>fs_unseal := replicate n (stillSealed 1) @ [unsealed]\<rparr>)))
        = Some (None, 2 * n + 2))"
proof -
  have a: "Unseal v w = Unseal_loop v 0 w" by (simp add: Unseal_def)
  have b: "svcGet (keyStore v) (unsealKeyForID i) w = (Inl err, w1) \<longrightarrow>
      Unseal_loop v i w =
        Some (Some (Wrap err (''unable to get key '%s'' @ apostrophe) [IStr (unsealKeyForID i)]), w1)"
    by (subst Unseal_loop.simps) simp
  have c: "svcGet (keyStore v) (unsealKeyForID i) w = (Inr k, w1) \<and> sysUnseal (cl v) k w1 = (Inl err, w2) \<longrightarrow>
      Unseal_loop v i w = Some (Some (Wrap err ''fail to send unseal request to vault'' []), w2)"
    by (subst Unseal_loop.simps) simp
  have d: "svcGet (keyStore v) (unsealKeyForID i) w = (Inr k, w1) \<and> sysUnseal (cl v) k w1 = (Inr resp, w2) \<longrightarrow>
      (\<not> resp_Sealed resp \<longrightarrow> Unseal_loop v i w = Some (None, w2)) \<and>
      (resp_Sealed resp \<and> resp_Progress resp = 0 \<longrightarrow>
         Unseal_loop v i w =
           Some (Some (Errorf ''failed to unseal vault, are you using the right unseal keys?'' []), w2)) \<and>
      (resp_Sealed resp \<and> 0 < resp_Progress resp \<longrightarrow>
         Unseal_loop v i w = Unseal_loop v (intSucc i) w2)"
    by (subst Unseal_loop.simps, subst (2) Unseal_loop.simps, subst (3) Unseal_loop.simps) simp
  have e: "0 \<le> i \<and> i < maxInt \<longrightarrow> intSucc i = i + 1" by (simp add: intSucc_def)
  have f: "Unseal v w = Some (res, w') \<longrightarrow>
      token w' = token w \<and> take (length (trace w)) (trace w') = trace w \<and>
      unsealRun (token w) 0 (drop (length (trace w)) (trace w')) res"
    using Unseal_loop_run [of v 0 w "(res, w')"] by (auto simp: Unseal_def)
  have g: "\<forall>n. map_option (\<lambda>r. (fst r, length (trace (snd r))))
          (Unseal ((fakeVault config0)\<lparr>keyStore := everyShareKV\<rparr>)
                  (world0 emptyStore (fakeServer0\<lparr>fs_unseal := replicate n (stillSealed 1) @ [unsealed]\<rparr>)))
        = Some (None, 2 * n + 2)"
  proof
    fix n
    have "fs_unseal (server (world0 emptyStore (fakeServer0\<lparr>fs_unseal := replicate n (stillSealed 1) @ [unsealed]\<rparr>)))
            = replicate n (stillSealed 1) @ [unsealed]" by (simp add: world0_def)
    from Unseal_loop_any_number_of_rounds [OF this, of 0]
    show "map_option (\<lambda>r. (fst r, length (trace (snd r))))
          (Unseal ((fakeVault config0)\<lparr>keyStore := everyShareKV\<rparr>)
                  (world0 emptyStore (fakeServer0\<lparr>fs_unseal := replicate n (stillSealed 1) @ [unsealed]\<rparr>)))
        = Some (None, 2 * n + 2)"
      by (auto simp: Unseal_def world0_def)
  qed
  from a b c d e f g show ?thesis by blast
qed

theorem Unseal_rounds_witness:
  "svcGet (keyStore (fakeVault config0)) (unsealKeyForID 0) (world0 emptyStore fakeServer0) =
     (Inl (Foreign True ''key not found''),
      \<lparr>kstore = emptyStore, server = fakeServer0, token = [],
       trace = [KVGet ''vault-unseal-0'' (Inl (Foreign True ''key not found''))]\<rparr>) \<and>
   Unseal_loop (fakeVault config0) 0 (world0 emptyStore fakeServer0) =
     Some (Some (Wrap (Foreign True ''key not found'') (''unable to get key '%s'' @ apostrophe) [IStr ''vault-unseal-0'']),
           \<lparr>kstore = emptyStore, server = fakeServer0, token = [],
            trace = [KVGet ''vault-unseal-0'' (Inl (Foreign True ''key not found''))]\<rparr>) \<and>
   svcGet (keyStore (fakeVault config0)) (unsealKeyForID 0) (world0 shareStore fakeServer0) =
     (Inr ''share-a'',
      \<lparr>kstore = shareStore, server = fakeServer0, token = [],
       trace = [KVGet ''vault-unseal-0'' (Inr ''share-a'')]\<rparr>) \<and>
   sysUnseal (cl (fakeVault config0)) ''share-a''
      \<lparr>kstore = shareStore, server = fakeServer0, token = [], trace = [KVGet ''vault-unseal-0'' (Inr ''share-a'')]\<rparr> =
     (Inl (Foreign False ''connection refused''),
      \<lparr>kstore = shareStore, server = fakeServer0, token = [],
       trace = [KVGet ''vault-unseal-0'' (Inr ''share-a''),
                Api [] (SysUnseal ''share-a'' (Inl (Foreign False ''connection refused'')))]\<rparr>) \<and>
   Unseal_loop (fakeVault config0) 0 (world0 shareStore fakeServer0) =
     Some (Some (Wrap (Foreign False ''connection refused'') ''fail to send unseal request to vault'' []),
           \<lparr>kstore = shareStore, server = fakeServer0, token = [],
            trace = [KVGet ''vault-unseal-0'' (Inr ''share-a''),
                     Api [] (SysUnseal ''share-a'' (Inl (Foreign False ''connection refused'')))]\<rparr>) \<and>
   (0::int) \<le> 0 \<and> 0 < maxInt \<and> intSucc 0 = 1 \<and>
   map_option fst (Unseal (fakeVault config0)
        (world0 shareStore (fakeServer0\<lparr>fs_unseal := [stillSealed 1, stillSealed 2, unsealed]\<rparr>))) = Some None \<and>
   map_option (\<lambda>r. unsealRun [] 0 (trace (snd r)) (fst r))
      (Unseal (fakeVault config0)
        (world0 shareStore (fakeServer0\<lparr>fs_unseal := [stillSealed 1, stillSealed 2, unsealed]\<rparr>))) = Some True \<and>
   map_option (\<lambda>r. (fst r, trace (snd r)))
      (Unseal (fakeVault config0)
        (world0 shareStore (fakeServer0\<lparr>fs_unseal := [stillSealed 1, stillSealed 0, unsealed]\<rparr>))) =
     Some (Some (Errorf ''failed to unseal vault, are you using the right unseal keys?'' []),
           [KVGet ''vault-unseal-0'' (Inr ''share-a''),
            Api [] (SysUnseal ''share-a'' (Inr \<lparr>resp_Sealed = True, resp_Progress = 1\<rparr>)),
            KVGet ''vault-unseal-1'' (Inr ''share-b''),
            Api [] (SysUnseal ''share-b'' (Inr \<lparr>resp_Sealed = True, resp_Progress = 0\<rparr>))])"
proof -
  let ?v = "fakeVault config0"
  let ?w3 = "world0 shareStore (fakeServer0\<lparr>fs_unseal := [stillSealed 1, stillSealed 2, unsealed]\<rparr>)"
  have h1: "svcGet (keyStore ?v) (unsealKeyForID 0) (world0 emptyStore fakeServer0) =
     (Inl (Foreign True ''key not found''),
      \<lparr>kstore = emptyStore, server = fakeServer0, token = [],
       trace = [KVGet ''vault-unseal-0'' (Inl (Foreign True ''key not found''))]\<rparr>)"
    by code_simp
  have k0: "unsealKeyForID 0 = ''vault-unseal-0''" by code_simp
  from Unseal_rounds [of ?v "world0 emptyStore fakeServer0" 0 "Foreign True ''key not found''"
         "\<lparr>kstore = emptyStore, server = fakeServer0, token = [],
           trace = [KVGet ''vault-unseal-0'' (Inl (Foreign True ''key not found''))]\<rparr>"] h1 k0
  have c1: "Unseal_loop ?v 0 (world0 emptyStore fakeServer0) =
     Some (Some (Wrap (Foreign True ''key not found'') (''unable to get key '%s'' @ apostrophe) [IStr ''vault-unseal-0'']),
           \<lparr>kstore = emptyStore, server = fakeServer0, token = [],
            trace = [KVGet ''vault-unseal-0'' (Inl (Foreign True ''key not found''))]\<rparr>)"
    by simp
  have h2: "svcGet (keyStore ?v) (unsealKeyForID 0) (world0 shareStore fakeServer0) =
     (Inr ''share-a'',
      \<lparr>kstore = shareStore, server = fakeServer0, token = [],
       trace = [KVGet ''vault-unseal-0'' (Inr ''share-a'')]\<rparr>)"
    by code_simp
  have h3: "sysUnseal (cl ?v) ''share-a''
      \<lparr>kstore = shareStore, server = fakeServer0, token = [], trace = [KVGet ''vault-unseal-0'' (Inr ''share-a'')]\<rparr> =
     (Inl (Foreign False ''connection refused''),
      \<lparr>kstore = shareStore, server = fakeServer0, token = [],
       trace = [KVGet ''vault-unseal-0'' (Inr ''share-a''),
                Api [] (SysUnseal ''share-a'' (Inl (Foreign False ''connection refused'')))]\<rparr>)"
    by code_simp
  from Unseal_rounds [of ?v "world0 shareStore fakeServer0" 0 "Foreign False ''connection refused''"
         "\<lparr>kstore = shareStore, server = fakeServer0, token = [], trace = [KVGet ''vault-unseal-0'' (Inr ''share-a'')]\<rparr>"
         "''share-a''"
         "\<lparr>kstore = shareStore, server = fakeServer0, token = [],
           trace = [KVGet ''vault-unseal-0'' (Inr ''share-a''),
                    Api [] (SysUnseal ''share-a'' (Inl (Foreign False ''connection refused'')))]\<rparr>"] h2 h3
  have c2: "Unseal_loop ?v 0 (world0 shareStore fakeServer0) =
     Some (Some (Wrap (Foreign False ''connection refused'') ''fail to send unseal request to vault'' []),
           \<lparr>kstore = shareStore, server = fakeServer0, token = [],
            trace = [KVGet ''vault-unseal-0'' (Inr ''share-a''),
                     Api [] (SysUnseal ''share-a'' (Inl (Foreign False ''connection refused'')))]\<rparr>)"
    by simp
  have m: "(0::int) \<le> 0 \<and> 0 < maxInt" by (simp add: maxInt_def)
  from Unseal_rounds [of ?v ?w3 0] m have c3: "intSucc 0 = 1" by simp
  have n: "map_option fst (Unseal ?v ?w3) = Some None" by code_simp
  then obtain w' where i: "Unseal ?v ?w3 = Some (None, w')" by auto
  have t: "trace ?w3 = []" "token ?w3 = []" by (simp_all add: world0_def)
  from Unseal_rounds [where v = ?v and w = ?w3 and res = None and w' = w'] i t
  have g: "unsealRun [] 0 (trace w') None" by simp
  with i have c4: "map_option (\<lambda>r. unsealRun [] 0 (trace (snd r)) (fst r)) (Unseal ?v ?w3) = Some True" by simp
  have c5: "map_option (\<lambda>r. (fst r, trace (snd r)))
      (Unseal ?v (world0 shareStore (fakeServer0\<lparr>fs_unseal := [stillSealed 1, stillSealed 0, unsealed]\<rparr>))) =
     Some (Some (Errorf ''failed to unseal vault, are you using the right unseal keys?'' []),
           [KVGet ''vault-unseal-0'' (Inr ''share-a''),
            Api [] (SysUnseal ''share-a'' (Inr \<lparr>resp_Sealed = True, resp_Progress = 1\<rparr>)),
            KVGet ''vault-unseal-1'' (Inr ''share-b''),
            Api [] (SysUnseal ''share-b'' (Inr \<lparr>resp_Sealed = True, resp_Progress = 0\<rparr>))])"
    by code_simp
  from h1 c1 h2 h3 c2 m c3 n c4 c5 show ?thesis by blast
qed

section \<open>Group aliases: the match on name and mount\<close>

text \<open>
  Against a server that answers reads from a fixed state, reading an alias, scanning the
  listed aliases and looking an alias up change nothing but the trace, and the look-up
  returns the matching alias.
\<close>

lemma writesOf_append: "writesOf (a @ b) = writesOf a @ writesOf b"
  by (induction a rule: writesOf.induct) simp_all

lemma readAlias_at:
  assumes "aliasAt c (token w) (server w) a"
  shows "\<exists>w'. getVaultGroupAliasName (fst a) c w = (Ok (fst (snd a)), w') \<and> onlyReads w w'"
    and "\<exists>w'. getVaultGroupAliasMount (fst a) c w = (Ok (snd (snd a)), w') \<and> onlyReads w w'"
  using assms
  by (auto simp: aliasAt_def getVaultGroupAliasName_def getVaultGroupAliasMount_def readVaultGroupAlias_def
                 logicalRead_def dataString_def onlyReads_def writesOf_append
           split: prod.splits sum.splits option.splits)

lemma findAliasLoop_at:
  assumes "list_all (aliasAt c (token w) (server w)) als"
  shows "\<exists>w'. findAliasLoop name accessor c (map (\<lambda>a. IStr (fst a)) als) w =
                 (Ok (matchingAlias name accessor als), w') \<and> onlyReads w w'"
  using assms
proof (induction als arbitrary: w)
  case Nil
  then show ?case by (simp add: matchingAlias_def onlyReads_def)
next
  case (Cons a als)
  from Cons.prems have a: "aliasAt c (token w) (server w) a" by simp
  from readAlias_at(1) [OF a] obtain w1 where
    n: "getVaultGroupAliasName (fst a) c w = (Ok (fst (snd a)), w1)" and r1: "onlyReads w w1" by blast
  from a r1 have "aliasAt c (token w1) (server w1) a" by (simp add: onlyReads_def)
  from readAlias_at(2) [OF this] obtain w2 where
    m: "getVaultGroupAliasMount (fst a) c w1 = (Ok (snd (snd a)), w2)" and r2: "onlyReads w1 w2" by blast
  from r1 r2 have r: "onlyReads w w2" by (simp add: onlyReads_def)
  show ?case
  proof (cases "fst (snd a) = name \<and> snd (snd a) = accessor")
    case True
    with n m r show ?thesis
      by (auto simp: matchingAlias_def cast_ToString_def cast_ToStringE_def)
  next
    case False
    from Cons.prems r have "list_all (aliasAt c (token w2) (server w2)) als" by (simp add: onlyReads_def)
    from Cons.IH [OF this] obtain w' where
      l: "findAliasLoop name accessor c (map (\<lambda>a. IStr (fst a)) als) w2 = (Ok (matchingAlias name accessor als), w')"
      and r3: "onlyReads w2 w'" by blast
    from r r3 have "onlyReads w w'" by (simp add: onlyReads_def)
    with False n m l show ?thesis
      by (auto simp: matchingAlias_def cast_ToString_def cast_ToStringE_def)
  qed
qed

lemma find_at:
  assumes "listedAliases c (token w) (server w) als"
  shows "\<exists>w'. findVaultGroupAliasIDFromNameAndMount name accessor c w =
                 (Ok (matchingAlias name accessor als), w') \<and> onlyReads w w'"
proof -
  obtain r s' where l: "Logical_List c (token w) ''identity/group-alias/id'' (server w) = (r, s')"
    by (metis prod.exhaust)
  let ?w1 = "w\<lparr>server := s', trace := trace w @ [Api (token w) (LogicalList ''identity/group-alias/id'')]\<rparr>"
  from l have ll: "logicalList c ''identity/group-alias/id'' w = (r, ?w1)" by (simp add: logicalList_def)
  from assms l have s: "s' = server w"
    by (auto simp: listedAliases_def split: sum.splits option.splits)
  then have r1: "onlyReads w ?w1" by (simp add: onlyReads_def writesOf_append)
  from assms have la: "list_all (aliasAt c (token ?w1) (server ?w1)) als"
    using s by (simp add: listedAliases_def)
  from findAliasLoop_at [OF la, of name accessor] obtain w' where
    f: "findAliasLoop name accessor c (map (\<lambda>a. IStr (fst a)) als) ?w1 = (Ok (matchingAlias name accessor als), w')"
    and r2: "onlyReads ?w1 w'" by blast
  from r1 r2 have rr: "onlyReads w w'" by (simp add: onlyReads_def)
  show ?thesis
  proof (cases r)
    case (Inl e)
    with assms l show ?thesis by (simp add: listedAliases_def)
  next
    case (Inr so)
    show ?thesis
    proof (cases so)
      case None
      with Inr assms l have "als = []" by (simp add: listedAliases_def)
      with None Inr ll r1 show ?thesis
        by (auto simp: findVaultGroupAliasIDFromNameAndMount_def matchingAlias_def)
    next
      case (Some sec)
      with Inr assms l have "map_of (Data sec) ''keys'' = Some (ISlice (map (\<lambda>a. IStr (fst a)) als))"
        by (simp add: listedAliases_def)
      with Some Inr ll f rr show ?thesis
        by (auto simp: findVaultGroupAliasIDFromNameAndMount_def)
    qed
  qed
qed


lemma configureGroupAliases_at:
  assumes mt: "mountAt (cl v) (token w) (server w)
                 (trimRightSlash (cast_ToString (mapIndex groupAlias ''mountpath'')) @ ''/'') accessor"
    and gr: "groupAt (cl v) (token w) (server w) (cast_ToString (mapIndex groupAlias ''group'')) ident"
    and la: "listedAliases (cl v) (token w) (server w) als"
  shows "\<exists>w3. onlyReads w w3 \<and>
           configureGroupAliases v (groupAlias # rest) w =
             (case writeWithWarningCheck v
                     (aliasTarget (matchingAlias (cast_ToString (mapIndex groupAlias ''name'')) accessor als))
                     (aliasConfig (cast_ToString (mapIndex groupAlias ''name'')) accessor ident) w3 of
                (Inl err, w4) \<Rightarrow>
                  (if matchingAlias (cast_ToString (mapIndex groupAlias ''name'')) accessor als = []
                   then Err (Wrap err ''failed to create group-alias %s'' [mapIndex groupAlias ''name''])
                   else Err (Wrap err ''failed to tune group-alias %s''
                               [IStr (matchingAlias (cast_ToString (mapIndex groupAlias ''name'')) accessor als)]),
                   w4)
              | (Inr sec, w4) \<Rightarrow> configureGroupAliases v rest w4)"
proof -
  let ?name = "cast_ToString (mapIndex groupAlias ''name'')"
  obtain r0 s0 where l0: "Sys_ListAuth (cl v) (token w) (server w) = (r0, s0)" by (metis prod.exhaust)
  with mt obtain mounts where "r0 = Inr mounts" "s0 = server w"
    and ma: "mounts (trimRightSlash (cast_ToString (mapIndex groupAlias ''mountpath'')) @ ''/'') = Some accessor"
    by (cases r0) (auto simp: mountAt_def)
  with l0 have m: "Sys_ListAuth (cl v) (token w) (server w) = (Inr mounts, server w)" by simp
  let ?w1 = "w\<lparr>server := server w, trace := trace w @ [Api (token w) ListAuth]\<rparr>"
  from m ma have a1: "getVaultAuthMountAccessor (cast_ToString (mapIndex groupAlias ''mountpath'')) (cl v) w
                        = (Inr accessor, ?w1)"
    by (simp add: getVaultAuthMountAccessor_def sysListAuth_def Let_def)
  have r1: "onlyReads w ?w1" by (simp add: onlyReads_def writesOf_append)
  obtain r1' s1 where l1: "Logical_Read (cl v) (token w)
                         (''identity/group/name/'' @ cast_ToString (mapIndex groupAlias ''group'')) (server w)
                       = (r1', s1)" by (metis prod.exhaust)
  with gr obtain so where "r1' = Inr so" by (cases r1') (auto simp: groupAt_def)
  with gr l1 obtain sec where "so = Some sec" by (cases so) (auto simp: groupAt_def)
  with gr l1 \<open>r1' = Inr so\<close> have g: "Logical_Read (cl v) (token w)
                         (''identity/group/name/'' @ cast_ToString (mapIndex groupAlias ''group'')) (server w)
                       = (Inr (Some sec), server w)"
    and gi: "map_of (Data sec) ''id'' = Some (IStr ident)"
    by (auto simp: groupAt_def)
  let ?w2 = "?w1\<lparr>server := server w,
                   trace := trace ?w1 @ [Api (token w) (LogicalRead (''identity/group/name/'' @
                                           cast_ToString (mapIndex groupAlias ''group'')))]\<rparr>"
  from g gi have a2: "getVaultGroupID (cast_ToString (mapIndex groupAlias ''group'')) (cl v) ?w1 = (Ok ident, ?w2)"
    by (simp add: getVaultGroupID_def readVaultGroup_def logicalRead_def dataString_def)
  have r2: "onlyReads w ?w2" by (simp add: onlyReads_def writesOf_append)
  from la have "listedAliases (cl v) (token ?w2) (server ?w2) als" by simp
  from find_at [OF this, of ?name accessor] obtain w3 where
    a3: "findVaultGroupAliasIDFromNameAndMount ?name accessor (cl v) ?w2 = (Ok (matchingAlias ?name accessor als), w3)"
    and r3: "onlyReads ?w2 w3" by blast
  from r2 r3 have r: "onlyReads w w3" by (simp add: onlyReads_def)
  have "configureGroupAliases v (groupAlias # rest) w =
             (case writeWithWarningCheck v (aliasTarget (matchingAlias ?name accessor als))
                     (aliasConfig ?name accessor ident) w3 of
                (Inl err, w4) \<Rightarrow>
                  (if matchingAlias ?name accessor als = []
                   then Err (Wrap err ''failed to create group-alias %s'' [mapIndex groupAlias ''name''])
                   else Err (Wrap err ''failed to tune group-alias %s'' [IStr (matchingAlias ?name accessor als)]),
                   w4)
              | (Inr sec, w4) \<Rightarrow> configureGroupAliases v rest w4)"
    using a1 a2 a3
    by (simp add: Let_def aliasTarget_def aliasConfig_def split: prod.splits sum.splits)
  with r show ?thesis by blast
qed

text \<open>
  C9. Let the server answer reads from a fixed state in which the aliases \<open>als\<close> exist.
  Then \<^verbatim>\<open>findVaultGroupAliasIDFromNameAndMount\<close> returns the ID of the first listed alias
  whose name and mount accessor are both the ones asked for, and the empty string when
  no alias has both; it writes nothing. An alias with the name asked for on another
  mount, or with another name on the mount asked for, is passed over. For a desired
  alias whose mount and group exist, the loop then makes one write with the payload of
  name, mount accessor and group ID: to the path of the matching alias, by its ID, when
  there is one, and to \<^verbatim>\<open>identity/group-alias\<close>, which creates an alias, when there is
  none (an ID is never empty on a Vault server). On the in-memory server: the desired
  aliases \<^verbatim>\<open>svc\<close> on the mount \<^verbatim>\<open>a/\<close> and \<^verbatim>\<open>svc\<close> on the mount \<^verbatim>\<open>b/\<close> give two creations and
  two aliases, and a second run writes to each of the two by its own ID.
\<close>

theorem group_alias_matched_on_name_and_mount:
  assumes "listedAliases (cl v) (token w) (server w) als"
  shows
  "(\<exists>w'. findVaultGroupAliasIDFromNameAndMount name accessor (cl v) w =
            (Ok (matchingAlias name accessor als), w') \<and> onlyReads w w') \<and>
   (mountAt (cl v) (token w) (server w)
       (trimRightSlash (cast_ToString (mapIndex groupAlias ''mountpath'')) @ ''/'') accessor \<and>
    groupAt (cl v) (token w) (server w) (cast_ToString (mapIndex groupAlias ''group'')) ident \<longrightarrow>
    (\<exists>w3. onlyReads w w3 \<and>
           configureGroupAliases v (groupAlias # rest) w =
             (case writeWithWarningCheck v
                     (aliasTarget (matchingAlias (cast_ToString (mapIndex groupAlias ''name'')) accessor als))
                     (aliasConfig (cast_ToString (mapIndex groupAlias ''name'')) accessor ident) w3 of
                (Inl err, w4) \<Rightarrow>
                  (if matchingAlias (cast_ToString (mapIndex groupAlias ''name'')) accessor als = []
                   then Err (Wrap err ''failed to create group-alias %s'' [mapIndex groupAlias ''name''])
                   else Err (Wrap err ''failed to tune group-alias %s''
                               [IStr (matchingAlias (cast_ToString (mapIndex groupAlias ''name'')) accessor als)]),
                   w4)
              | (Inr sec, w4) \<Rightarrow> configureGroupAliases v rest w4))) \<and>
   matchingAlias name accessor ((ident', name, accessor) # als') = ident' \<and>
   (accessor' \<noteq> accessor \<longrightarrow>
      matchingAlias name accessor ((ident', name, accessor') # als') = matchingAlias name accessor als') \<and>
   (name' \<noteq> name \<longrightarrow>
      matchingAlias name accessor ((ident', name', accessor) # als') = matchingAlias name accessor als') \<and>
   matchingAlias name accessor [] = [] \<and>
   fs_aliases (server (snd (configureGroupAliases (fakeVault config0) [svcOnA, svcOnB]
                              (world0 emptyStore aliasServer0)))) = fs_aliases aliasServer2 \<and>
   writesOf (trace (snd (configureGroupAliases (fakeVault config0) [svcOnA, svcOnB]
                              (world0 emptyStore aliasServer0)))) =
     [(''identity/group-alias'', aliasConfig ''svc'' ''acc_a'' ''group-1''),
      (''identity/group-alias'', aliasConfig ''svc'' ''acc_b'' ''group-2'')] \<and>
   writesOf (trace (snd (configureGroupAliases (fakeVault config0) [svcOnA, svcOnB]
                              (world0 emptyStore aliasServer2)))) =
     [(''identity/group-alias/id/alias-0'', aliasConfig ''svc'' ''acc_a'' ''group-1''),
      (''identity/group-alias/id/alias-1'', aliasConfig ''svc'' ''acc_b'' ''group-2'')]"
proof -
  note a = find_at [OF assms, of name accessor]
  have b: "mountAt (cl v) (token w) (server w)
       (trimRightSlash (cast_ToString (mapIndex groupAlias ''mountpath'')) @ ''/'') accessor \<and>
    groupAt (cl v) (token w) (server w) (cast_ToString (mapIndex groupAlias ''group'')) ident \<longrightarrow>
    (\<exists>w3. onlyReads w w3 \<and>
           configureGroupAliases v (groupAlias # rest) w =
             (case writeWithWarningCheck v
                     (aliasTarget (matchingAlias (cast_ToString (mapIndex groupAlias ''name'')) accessor als))
                     (aliasConfig (cast_ToString (mapIndex groupAlias ''name'')) accessor ident) w3 of
                (Inl err, w4) \<Rightarrow>
                  (if matchingAlias (cast_ToString (mapIndex groupAlias ''name'')) accessor als = []
                   then Err (Wrap err ''failed to create group-alias %s'' [mapIndex groupAlias ''name''])
                   else Err (Wrap err ''failed to tune group-alias %s''
                               [IStr (matchingAlias (cast_ToString (mapIndex groupAlias ''name'')) accessor als)]),
                   w4)
              | (Inr sec, w4) \<Rightarrow> configureGroupAliases v rest w4))"
    using configureGroupAliases_at [OF _ _ assms] by blast
  have c: "matchingAlias name accessor ((ident', name, accessor) # als') = ident'"
    "accessor' \<noteq> accessor \<longrightarrow>
      matchingAlias name accessor ((ident', name, accessor') # als') = matchingAlias name accessor als'"
    "name' \<noteq> name \<longrightarrow>
      matchingAlias name accessor ((ident', name', accessor) # als') = matchingAlias name accessor als'"
    "matchingAlias name accessor [] = []"
    by (simp_all add: matchingAlias_def)
  have d: "fs_aliases (server (snd (configureGroupAliases (fakeVault config0) [svcOnA, svcOnB]
                              (world0 emptyStore aliasServer0)))) = fs_aliases aliasServer2"
    by code_simp
  have e: "writesOf (trace (snd (configureGroupAliases (fakeVault config0) [svcOnA, svcOnB]
                              (world0 emptyStore aliasServer0)))) =
     [(''identity/group-alias'', aliasConfig ''svc'' ''acc_a'' ''group-1''),
      (''identity/group-alias'', aliasConfig ''svc'' ''acc_b'' ''group-2'')]"
    by code_simp
  have f: "writesOf (trace (snd (configureGroupAliases (fakeVault config0) [svcOnA, svcOnB]
                              (world0 emptyStore aliasServer2)))) =
     [(''identity/group-alias/id/alias-0'', aliasConfig ''svc'' ''acc_a'' ''group-1''),
      (''identity/group-alias/id/alias-1'', aliasConfig ''svc'' ''acc_b'' ''group-2'')]"
    by code_simp
  from a b c d e f show ?thesis by blast
qed


theorem group_alias_matched_on_name_and_mount_witness:
  "listedAliases (cl (fakeVault config0)) (token (world0 emptyStore aliasServer2)) (server (world0 emptyStore aliasServer2))
     [(''alias-0'', ''svc'', ''acc_a''), (''alias-1'', ''svc'', ''acc_b'')] \<and>
   mountAt (cl (fakeVault config0)) (token (world0 emptyStore aliasServer2)) (server (world0 emptyStore aliasServer2))
     (trimRightSlash (cast_ToString (mapIndex svcOnB ''mountpath'')) @ ''/'') ''acc_b'' \<and>
   groupAt (cl (fakeVault config0)) (token (world0 emptyStore aliasServer2)) (server (world0 emptyStore aliasServer2))
     (cast_ToString (mapIndex svcOnB ''group'')) ''group-2'' \<and>
   fst (findVaultGroupAliasIDFromNameAndMount ''svc'' ''acc_b'' (cl (fakeVault config0))
          (world0 emptyStore aliasServer2)) = Ok ''alias-1'' \<and>
   fst (findVaultGroupAliasIDFromNameAndMount ''svc'' ''acc_c'' (cl (fakeVault config0))
          (world0 emptyStore aliasServer2)) = Ok [] \<and>
   writesOf (trace (snd (configureGroupAliases (fakeVault config0) [svcOnB] (world0 emptyStore aliasServer2)))) =
     [(''identity/group-alias/id/alias-1'', aliasConfig ''svc'' ''acc_b'' ''group-2'')]"
proof -
  let ?v = "fakeVault config0"
  let ?w = "world0 emptyStore aliasServer2"
  let ?als = "[(''alias-0'', ''svc'', ''acc_a''), (''alias-1'', ''svc'', ''acc_b'')]"
  have h1: "listedAliases (cl ?v) (token ?w) (server ?w) ?als"
    by (simp add: listedAliases_def aliasAt_def fakeVault_def fakeClient_def fakeList_def fakeRead_def
                  world0_def aliasServer2_def aliasServer0_def fakeServer0_def)
  have h2: "mountAt (cl ?v) (token ?w) (server ?w)
              (trimRightSlash (cast_ToString (mapIndex svcOnB ''mountpath'')) @ ''/'') ''acc_b''"
    by (simp add: mountAt_def fakeVault_def fakeClient_def world0_def aliasServer2_def aliasServer0_def
                  fakeServer0_def svcOnB_def mapIndex_def cast_ToString_def cast_ToStringE_def trimRightSlash_def)
  have h3: "groupAt (cl ?v) (token ?w) (server ?w) (cast_ToString (mapIndex svcOnB ''group'')) ''group-2''"
    by (simp add: groupAt_def fakeVault_def fakeClient_def fakeRead_def world0_def aliasServer2_def
                  aliasServer0_def fakeServer0_def svcOnB_def mapIndex_def cast_ToString_def cast_ToStringE_def)
  have m1: "matchingAlias ''svc'' ''acc_b'' ?als = ''alias-1''"
    and m2: "matchingAlias ''svc'' ''acc_c'' ?als = []"
    by (simp_all add: matchingAlias_def)
  have n: "cast_ToString (mapIndex svcOnB ''name'') = ''svc''"
    by (simp add: svcOnB_def mapIndex_def cast_ToString_def cast_ToStringE_def)
  have x1: "\<exists>w'. findVaultGroupAliasIDFromNameAndMount ''svc'' ''acc_b'' (cl ?v) ?w =
                  (Ok (matchingAlias ''svc'' ''acc_b'' ?als), w') \<and> onlyReads ?w w'"
    using group_alias_matched_on_name_and_mount [OF h1, of "''svc''" "''acc_b''"] by (rule conjunct1)
  have c1: "fst (findVaultGroupAliasIDFromNameAndMount ''svc'' ''acc_b'' (cl ?v) ?w) = Ok ''alias-1''"
    using x1 m1 by auto
  have x2: "\<exists>w'. findVaultGroupAliasIDFromNameAndMount ''svc'' ''acc_c'' (cl ?v) ?w =
                  (Ok (matchingAlias ''svc'' ''acc_c'' ?als), w') \<and> onlyReads ?w w'"
    using group_alias_matched_on_name_and_mount [OF h1, of "''svc''" "''acc_c''"] by (rule conjunct1)
  have c2: "fst (findVaultGroupAliasIDFromNameAndMount ''svc'' ''acc_c'' (cl ?v) ?w) = Ok []"
    using x2 m2 by auto
  have x3: "\<exists>w3. onlyReads ?w w3 \<and>
           configureGroupAliases ?v [svcOnB] ?w =
             (case writeWithWarningCheck ?v
                     (aliasTarget (matchingAlias (cast_ToString (mapIndex svcOnB ''name'')) ''acc_b'' ?als))
                     (aliasConfig (cast_ToString (mapIndex svcOnB ''name'')) ''acc_b'' ''group-2'') w3 of
                (Inl err, w4) \<Rightarrow>
                  (if matchingAlias (cast_ToString (mapIndex svcOnB ''name'')) ''acc_b'' ?als = []
                   then Err (Wrap err ''failed to create group-alias %s'' [mapIndex svcOnB ''name''])
                   else Err (Wrap err ''failed to tune group-alias %s''
                               [IStr (matchingAlias (cast_ToString (mapIndex svcOnB ''name'')) ''acc_b'' ?als)]),
                   w4)
              | (Inr sec, w4) \<Rightarrow> configureGroupAliases ?v [] w4)"
    using group_alias_matched_on_name_and_mount
            [OF h1, of "''svc''" "''acc_b''" svcOnB "''group-2''" "[]", THEN conjunct2, THEN conjunct1] h2 h3
    by (rule mp [OF _ conjI])
  then obtain w3 where r: "onlyReads ?w w3"
    and e: "configureGroupAliases ?v [svcOnB] ?w =
             (case writeWithWarningCheck ?v
                     (aliasTarget (matchingAlias (cast_ToString (mapIndex svcOnB ''name'')) ''acc_b'' ?als))
                     (aliasConfig (cast_ToString (mapIndex svcOnB ''name'')) ''acc_b'' ''group-2'') w3 of
                (Inl err, w4) \<Rightarrow>
                  (if matchingAlias (cast_ToString (mapIndex svcOnB ''name'')) ''acc_b'' ?als = []
                   then Err (Wrap err ''failed to create group-alias %s'' [mapIndex svcOnB ''name''])
                   else Err (Wrap err ''failed to tune group-alias %s''
                               [IStr (matchingAlias (cast_ToString (mapIndex svcOnB ''name'')) ''acc_b'' ?als)]),
                   w4)
              | (Inr sec, w4) \<Rightarrow> configureGroupAliases ?v [] w4)"
    by blast
  from r have t: "writesOf (trace w3) = []" by (simp add: onlyReads_def world0_def)
  have wr: "writeWithWarningCheck ?v ''identity/group-alias/id/alias-1'' d w3 =
              (Inr None, w3\<lparr>server := snd (fakeWrite (token w3) ''identity/group-alias/id/alias-1'' d (server w3)),
                            trace := trace w3 @ [Api (token w3) (LogicalWrite ''identity/group-alias/id/alias-1'' d)]\<rparr>)" for d
    by (simp add: writeWithWarningCheck_def logicalWrite_def fakeVault_def fakeClient_def fakeWrite_def)
  from e have c3: "writesOf (trace (snd (configureGroupAliases ?v [svcOnB] ?w))) =
     [(''identity/group-alias/id/alias-1'', aliasConfig ''svc'' ''acc_b'' ''group-2'')]"
    by (simp add: n m1 aliasTarget_def wr writesOf_append t)
  from h1 h2 h3 c1 c2 c3 show ?thesis by blast
qed

end
